theory Spec2Isabelle
  imports Complex_Main
begin

section \<open>The rule-based patient analysis engine (ai.service.ts, ai.types.ts)\<close>

text \<open>
  This theory embeds the class \<open>AIService\<close> of \<open>src/ai/ai.service.ts\<close> and the types and
  the default configuration of \<open>ai.types.ts\<close>.

  Conventions of the embedding.
  \<^item> A JavaScript \<open>number\<close> is a rational (\<open>rat\<close>): arithmetic is exact, there is no NaN and
    no infinity. An optional numeric field (\<open>systolic?: number\<close>) is a \<open>rat option\<close>, with
    \<open>None\<close> for \<open>undefined\<close>. A relational comparison with \<open>undefined\<close> is false in
    JavaScript (\<open>undefined\<close> converts to NaN); \<open>ge_num\<close> and \<open>le_num\<close> below say so.
  \<^item> A \<open>Date\<close> is its time value, an \<open>int\<close> of milliseconds. The wall clock that the
    analyzers read with \<open>new Date()\<close> is the explicit parameter \<open>now\<close>;
    \<open>d.setDate(d.getDate() - n)\<close> is \<open>now - n * 86400000\<close> (a day has 24 hours: no
    daylight-saving change inside the window).
  \<^item> Counters (\<open>array.length\<close>, \<open>pendingExams\<close>, \<open>overdueExams\<close>) are \<open>nat\<close>.
  \<^item> Fields of the input records that no analyzer reads (\<open>id\<close>, \<open>patientId\<close>,
    \<open>medicationId\<close>, \<open>takenAt\<close>, \<open>createdAt\<close>, the raw string \<open>value\<close> of a vital) are
    left out of the records.
  \<^item> The field \<open>value\<close> of a flag detail and of the risk score is named \<open>flag_value\<close> and
    \<open>risk_value\<close>; the fields \<open>high\<close>, \<open>low\<close>, \<open>weight\<close> of the per-channel
    configuration sections carry the section's name as a prefix.
\<close>

subsection \<open>Types of ai.types.ts\<close>

datatype AdherenceStatus = Good | Medium | Bad

datatype VitalFlag =
    PRESSURE_HIGH | PRESSURE_LOW | GLUCOSE_HIGH | GLUCOSE_LOW
  | HEART_RATE_HIGH | HEART_RATE_LOW | TEMPERATURE_HIGH | TEMPERATURE_LOW | OXYGEN_LOW

datatype Severity = SevLow | SevMedium | SevHigh

datatype RiskLevel = LevelLow | LevelModerate | LevelHigh

datatype ReminderStatus = Pending | Taken | Missed | Skipped | Late

datatype VitalType =
  Blood_pressure | Heart_rate | Temperature | Glucose | Weight | Oxygen_saturation

record AdherenceAnalysis =
  days :: nat
  totalReminders :: nat
  taken :: nat
  late :: nat
  missed :: nat
  adherenceRate :: rat
  adherenceStatus :: AdherenceStatus

record LastMeasurements =
  lm_systolic :: "rat option"
  lm_diastolic :: "rat option"
  lm_heartRate :: "rat option"
  lm_bloodGlucose :: "rat option"
  lm_temperature :: "rat option"
  lm_oxygenSaturation :: "rat option"

record FlagDetail =
  flag :: VitalFlag
  flag_value :: rat
  threshold :: rat
  severity :: Severity

record VitalsAnalysis =
  lastMeasurements :: LastMeasurements
  flags :: "VitalFlag list"
  flagDetails :: "FlagDetail list"

text \<open>
  Of \<open>ExamsAnalysis\<close> the risk calculator and the recommendation generator read the
  counters \<open>pendingExams\<close> and \<open>overdueExams\<close> only; \<open>recentExams\<close> (here the number of
  digest entries) and \<open>completedExams\<close> are carried for completeness.
\<close>

record ExamsAnalysis =
  recentExams :: nat
  pendingExams :: nat
  overdueExams :: nat
  completedExams :: nat

text \<open>
  A reason is one of the template strings of \<open>calculateRiskScore\<close> together with the
  number(s) interpolated into it.
\<close>

datatype Reason =
    ReasonLowAdherence rat
  | ReasonAdherenceCanImprove rat
  | ReasonPressureHigh rat
  | ReasonPressureLow rat
  | ReasonGlucoseHigh rat
  | ReasonGlucoseLow rat
  | ReasonHeartRateHigh rat
  | ReasonHeartRateLow rat
  | ReasonFever rat
  | ReasonHypothermia rat
  | ReasonOxygenLow rat
  | ReasonOverdueExams nat rat
  | ReasonPendingExams nat

record RiskScore =
  risk_value :: rat
  level :: RiskLevel
  reasons :: "Reason list"

record AdherenceConfig =
  goodThreshold :: rat
  mediumThreshold :: rat
  badWeight :: rat
  mediumWeight :: rat

record PressureConfig =
  systolicHigh :: rat
  systolicLow :: rat
  diastolicHigh :: rat
  diastolicLow :: rat
  pressure_weight :: rat

record GlucoseConfig =
  glucose_high :: rat
  glucose_low :: rat
  glucose_weight :: rat

record HeartRateConfig =
  heartRate_high :: rat
  heartRate_low :: rat
  heartRate_weight :: rat

record TemperatureConfig =
  temperature_high :: rat
  temperature_low :: rat
  temperature_weight :: rat

record OxygenConfig =
  oxygen_low :: rat
  oxygen_weight :: rat

record VitalsConfig =
  pressure :: PressureConfig
  glucose :: GlucoseConfig
  heartRate :: HeartRateConfig
  temperature :: TemperatureConfig
  oxygen :: OxygenConfig

record ExamsConfig =
  overdueDays :: rat
  overdueWeight :: rat
  pendingWeight :: rat

record RiskLevelsConfig =
  lowMax :: rat
  moderateMax :: rat

record RiskCalculationConfig =
  adherence :: AdherenceConfig
  vitals :: VitalsConfig
  exams :: ExamsConfig
  riskLevels :: RiskLevelsConfig

definition DEFAULT_RISK_CONFIG :: RiskCalculationConfig where
  "DEFAULT_RISK_CONFIG =
     \<lparr> adherence =
         \<lparr> goodThreshold = 90, mediumThreshold = 75, badWeight = 25, mediumWeight = 10 \<rparr>,
       vitals =
         \<lparr> pressure =
             \<lparr> systolicHigh = 140, systolicLow = 90, diastolicHigh = 90, diastolicLow = 60,
               pressure_weight = 15 \<rparr>,
           glucose = \<lparr> glucose_high = 180, glucose_low = 70, glucose_weight = 15 \<rparr>,
           heartRate = \<lparr> heartRate_high = 100, heartRate_low = 50, heartRate_weight = 10 \<rparr>,
           temperature =
             \<lparr> temperature_high = 38, temperature_low = 35, temperature_weight = 10 \<rparr>,
           oxygen = \<lparr> oxygen_low = 92, oxygen_weight = 20 \<rparr> \<rparr>,
       exams = \<lparr> overdueDays = 30, overdueWeight = 15, pendingWeight = 5 \<rparr>,
       riskLevels = \<lparr> lowMax = 29, moderateMax = 59 \<rparr> \<rparr>"

record ReminderRecord =
  scheduledAt :: int
  status :: ReminderStatus

record VitalRecord =
  type :: VitalType
  systolic :: "rat option"
  diastolic :: "rat option"
  numericValue :: "rat option"
  recordedAt :: int

subsection \<open>Numbers and dates\<close>

definition Math_round :: "rat \<Rightarrow> rat" where
  \<comment> \<open>\<open>Math.round\<close>: the nearest integer, a half rounded up.\<close>
  "Math_round x = of_int \<lfloor>x + 1 / 2\<rfloor>"

definition ge_num :: "rat option \<Rightarrow> rat \<Rightarrow> bool" where
  \<comment> \<open>\<open>v! >= t\<close> for an optional field: false when the field is \<open>undefined\<close>.\<close>
  "ge_num v t = (case v of None \<Rightarrow> False | Some x \<Rightarrow> t \<le> x)"

definition le_num :: "rat option \<Rightarrow> rat \<Rightarrow> bool" where
  \<comment> \<open>\<open>v! <= t\<close> for an optional field: false when the field is \<open>undefined\<close>.\<close>
  "le_num v t = (case v of None \<Rightarrow> False | Some x \<Rightarrow> x \<le> t)"

definition daysAgo :: "int \<Rightarrow> int \<Rightarrow> int" where
  \<comment> \<open>\<open>const d = new Date(); d.setDate(d.getDate() - n)\<close>, as a time value.\<close>
  "daysAgo now n = now - n * 86400000"

subsection \<open>analyzeAdherence\<close>

definition analyzeAdherence ::
  "RiskCalculationConfig \<Rightarrow> int \<Rightarrow> ReminderRecord list \<Rightarrow> AdherenceAnalysis" where
  "analyzeAdherence cfg now reminders =
     (let thirtyDaysAgo = daysAgo now 30;
          recentReminders = filter (\<lambda>r. thirtyDaysAgo \<le> scheduledAt r) reminders;
          totalReminders = length recentReminders;
          taken = length (filter (\<lambda>r. status r = Taken) recentReminders);
          late = length (filter (\<lambda>r. status r = Late) recentReminders);
          missed = length (filter (\<lambda>r. status r = Missed) recentReminders);
          adherenceRate =
            (if 0 < totalReminders
             then Math_round ((of_nat (taken + late) / of_nat totalReminders) * 10000) / 100
             else 100);
          adherenceStatus =
            (if goodThreshold (adherence cfg) \<le> adherenceRate then Good
             else if mediumThreshold (adherence cfg) \<le> adherenceRate then Medium
             else Bad)
      in \<lparr> days = 30, totalReminders = totalReminders, taken = taken, late = late,
           missed = missed, adherenceRate = adherenceRate,
           adherenceStatus = adherenceStatus \<rparr>)"

subsection \<open>groupVitalsByType\<close>

text \<open>
  \<open>grouped\<close> is a dictionary from the vital type to the records of that type, in input
  order; each group is then sorted with the comparator
  \<open>(a, b) => b.recordedAt - a.recordedAt\<close>, most recent first. \<open>Array.prototype.sort\<close> is
  stable, and so is \<open>sort_key\<close>.
\<close>

definition pushGrouped ::
  "(VitalType \<rightharpoonup> VitalRecord list) \<Rightarrow> VitalRecord \<Rightarrow> (VitalType \<rightharpoonup> VitalRecord list)" where
  "pushGrouped grouped vital =
     grouped(type vital \<mapsto> (case grouped (type vital) of None \<Rightarrow> [] | Some g \<Rightarrow> g) @ [vital])"

definition sortByRecency :: "VitalRecord list \<Rightarrow> VitalRecord list" where
  "sortByRecency g = sort_key (\<lambda>v. - recordedAt v) g"

definition groupVitalsByType :: "VitalRecord list \<Rightarrow> (VitalType \<rightharpoonup> VitalRecord list)" where
  "groupVitalsByType vitalRecords =
     (\<lambda>t. map_option sortByRecency (foldl pushGrouped Map.empty vitalRecords t))"

subsection \<open>analyzeVitals\<close>

definition latestOf :: "VitalRecord list option \<Rightarrow> VitalRecord option" where
  \<comment> \<open>\<open>g[0]\<close> under the guard \<open>g && g.length > 0\<close>, for a group \<open>g\<close> of \<open>vitalsByType\<close>.\<close>
  "latestOf bucket =
     (case bucket of None \<Rightarrow> None | Some g \<Rightarrow> (case g of [] \<Rightarrow> None | latest # _ \<Rightarrow> Some latest))"

definition readingsOf :: "VitalRecord list option \<Rightarrow> VitalRecord list" where
  "readingsOf bucket = (case bucket of None \<Rightarrow> [] | Some g \<Rightarrow> g)"

definition pressureBlock :: "RiskCalculationConfig \<Rightarrow> VitalRecord list option \<Rightarrow> FlagDetail list" where
  "pressureBlock cfg bucket =
     (case latestOf bucket of None \<Rightarrow> []
      | Some latest \<Rightarrow>
        (case systolic latest of None \<Rightarrow> []
         | Some latest_systolic \<Rightarrow>
           (case diastolic latest of None \<Rightarrow> []
            | Some latest_diastolic \<Rightarrow>
              (let highPressureCount = length (filter
                     (\<lambda>v. ge_num (systolic v) (systolicHigh (pressure (vitals cfg))) \<or>
                          ge_num (diastolic v) (diastolicHigh (pressure (vitals cfg))))
                     (readingsOf bucket));
                   lowPressureCount = length (filter
                     (\<lambda>v. le_num (systolic v) (systolicLow (pressure (vitals cfg))) \<or>
                          le_num (diastolic v) (diastolicLow (pressure (vitals cfg))))
                     (readingsOf bucket))
               in (if 2 \<le> highPressureCount
                   then [\<lparr> flag = PRESSURE_HIGH, flag_value = latest_systolic,
                           threshold = systolicHigh (pressure (vitals cfg)),
                           severity = (if 160 \<le> latest_systolic then SevHigh
                                       else if 150 \<le> latest_systolic then SevMedium
                                       else SevLow) \<rparr>]
                   else []) @
                  (if 2 \<le> lowPressureCount
                   then [\<lparr> flag = PRESSURE_LOW, flag_value = latest_systolic,
                           threshold = systolicLow (pressure (vitals cfg)),
                           severity = (if latest_systolic \<le> 80 then SevHigh
                                       else if latest_systolic \<le> 85 then SevMedium
                                       else SevLow) \<rparr>]
                   else [])))))"

definition glucoseBlock :: "RiskCalculationConfig \<Rightarrow> VitalRecord list option \<Rightarrow> FlagDetail list" where
  "glucoseBlock cfg bucket =
     (case latestOf bucket of None \<Rightarrow> []
      | Some latest \<Rightarrow>
        (case numericValue latest of None \<Rightarrow> []
         | Some latest_numericValue \<Rightarrow>
           (let highGlucoseCount = length (filter
                  (\<lambda>v. ge_num (numericValue v) (glucose_high (glucose (vitals cfg))))
                  (readingsOf bucket));
                lowGlucoseCount = length (filter
                  (\<lambda>v. le_num (numericValue v) (glucose_low (glucose (vitals cfg))))
                  (readingsOf bucket))
            in (if 2 \<le> highGlucoseCount
                then [\<lparr> flag = GLUCOSE_HIGH, flag_value = latest_numericValue,
                        threshold = glucose_high (glucose (vitals cfg)),
                        severity = (if 250 \<le> latest_numericValue then SevHigh
                                    else if 200 \<le> latest_numericValue then SevMedium
                                    else SevLow) \<rparr>]
                else []) @
               (if 1 \<le> lowGlucoseCount
                then [\<lparr> flag = GLUCOSE_LOW, flag_value = latest_numericValue,
                        threshold = glucose_low (glucose (vitals cfg)),
                        severity = (if latest_numericValue \<le> 50 then SevHigh
                                    else if latest_numericValue \<le> 60 then SevMedium
                                    else SevLow) \<rparr>]
                else []))))"

definition heartRateBlock :: "RiskCalculationConfig \<Rightarrow> VitalRecord list option \<Rightarrow> FlagDetail list" where
  "heartRateBlock cfg bucket =
     (case latestOf bucket of None \<Rightarrow> []
      | Some latest \<Rightarrow>
        (case numericValue latest of None \<Rightarrow> []
         | Some latest_numericValue \<Rightarrow>
           (if heartRate_high (heartRate (vitals cfg)) \<le> latest_numericValue
            then [\<lparr> flag = HEART_RATE_HIGH, flag_value = latest_numericValue,
                    threshold = heartRate_high (heartRate (vitals cfg)),
                    severity = (if 120 \<le> latest_numericValue then SevHigh
                                else if 110 \<le> latest_numericValue then SevMedium
                                else SevLow) \<rparr>]
            else []) @
           (if latest_numericValue \<le> heartRate_low (heartRate (vitals cfg))
            then [\<lparr> flag = HEART_RATE_LOW, flag_value = latest_numericValue,
                    threshold = heartRate_low (heartRate (vitals cfg)),
                    severity = (if latest_numericValue \<le> 40 then SevHigh
                                else if latest_numericValue \<le> 45 then SevMedium
                                else SevLow) \<rparr>]
            else [])))"

definition temperatureBlock :: "RiskCalculationConfig \<Rightarrow> VitalRecord list option \<Rightarrow> FlagDetail list" where
  "temperatureBlock cfg bucket =
     (case latestOf bucket of None \<Rightarrow> []
      | Some latest \<Rightarrow>
        (case numericValue latest of None \<Rightarrow> []
         | Some latest_numericValue \<Rightarrow>
           (if temperature_high (temperature (vitals cfg)) \<le> latest_numericValue
            then [\<lparr> flag = TEMPERATURE_HIGH, flag_value = latest_numericValue,
                    threshold = temperature_high (temperature (vitals cfg)),
                    severity = (if 39 \<le> latest_numericValue then SevHigh
                                else if 77 / 2 \<le> latest_numericValue then SevMedium
                                else SevLow) \<rparr>]
            else []) @
           (if latest_numericValue \<le> temperature_low (temperature (vitals cfg))
            then [\<lparr> flag = TEMPERATURE_LOW, flag_value = latest_numericValue,
                    threshold = temperature_low (temperature (vitals cfg)),
                    severity = (if latest_numericValue \<le> 34 then SevHigh
                                else if latest_numericValue \<le> 69 / 2 then SevMedium
                                else SevLow) \<rparr>]
            else [])))"

definition oxygenBlock :: "RiskCalculationConfig \<Rightarrow> VitalRecord list option \<Rightarrow> FlagDetail list" where
  "oxygenBlock cfg bucket =
     (case latestOf bucket of None \<Rightarrow> []
      | Some latest \<Rightarrow>
        (case numericValue latest of None \<Rightarrow> []
         | Some latest_numericValue \<Rightarrow>
           (if latest_numericValue \<le> oxygen_low (oxygen (vitals cfg))
            then [\<lparr> flag = OXYGEN_LOW, flag_value = latest_numericValue,
                    threshold = oxygen_low (oxygen (vitals cfg)),
                    severity = (if latest_numericValue \<le> 88 then SevHigh
                                else if latest_numericValue \<le> 90 then SevMedium
                                else SevLow) \<rparr>]
            else [])))"

definition latestNumeric :: "VitalRecord list option \<Rightarrow> rat option" where
  "latestNumeric bucket =
     (case latestOf bucket of None \<Rightarrow> None | Some latest \<Rightarrow> numericValue latest)"

definition latestPressure :: "VitalRecord list option \<Rightarrow> (VitalRecord \<Rightarrow> rat option) \<Rightarrow> rat option" where
  \<comment> \<open>Both pressure fields are stored only when the latest record has both.\<close>
  "latestPressure bucket field =
     (case latestOf bucket of None \<Rightarrow> None
      | Some latest \<Rightarrow>
        (if systolic latest \<noteq> None \<and> diastolic latest \<noteq> None then field latest else None))"

text \<open>
  Every \<open>flags.push(F)\<close> of the source is followed by a \<open>flagDetails.push\<close> of a detail with
  \<open>flag: F\<close>, so \<open>flags\<close> is the list of the flags of \<open>flagDetails\<close>. The five blocks run in
  the order pressure, glucose, heart rate, temperature, oxygen.
\<close>

definition analyzeVitals ::
  "RiskCalculationConfig \<Rightarrow> int \<Rightarrow> VitalRecord list \<Rightarrow> VitalsAnalysis" where
  "analyzeVitals cfg now vitalRecords =
     (let sevenDaysAgo = daysAgo now 7;
          recentVitals = filter (\<lambda>v. sevenDaysAgo \<le> recordedAt v) vitalRecords;
          vitalsByType = groupVitalsByType recentVitals;
          details =
            pressureBlock cfg (vitalsByType Blood_pressure) @
            glucoseBlock cfg (vitalsByType Glucose) @
            heartRateBlock cfg (vitalsByType Heart_rate) @
            temperatureBlock cfg (vitalsByType Temperature) @
            oxygenBlock cfg (vitalsByType Oxygen_saturation)
      in \<lparr> lastMeasurements =
             \<lparr> lm_systolic = latestPressure (vitalsByType Blood_pressure) systolic,
               lm_diastolic = latestPressure (vitalsByType Blood_pressure) diastolic,
               lm_heartRate = latestNumeric (vitalsByType Heart_rate),
               lm_bloodGlucose = latestNumeric (vitalsByType Glucose),
               lm_temperature = latestNumeric (vitalsByType Temperature),
               lm_oxygenSaturation = latestNumeric (vitalsByType Oxygen_saturation) \<rparr>,
           flags = map flag details,
           flagDetails = details \<rparr>)"

subsection \<open>calculateRiskScore\<close>

text \<open>
  The accumulator is the pair of the local variables \<open>score\<close> and \<open>reasons\<close>
  (\<open>reasonList\<close> below).
  \<open>vitalStep\<close> is the body of the loop over \<open>vitals.flagDetails\<close>, one equation of the
  \<open>case\<close> per \<open>case\<close> label of the \<open>switch\<close>.
\<close>

definition adherenceStep ::
  "RiskCalculationConfig \<Rightarrow> AdherenceAnalysis \<Rightarrow> rat \<times> Reason list \<Rightarrow> rat \<times> Reason list" where
  "adherenceStep cfg adh acc =
     (case acc of (score, reasonList) \<Rightarrow>
        if adherenceStatus adh = Bad
        then (score + badWeight (adherence cfg),
              reasonList @ [ReasonLowAdherence (adherenceRate adh)])
        else if adherenceStatus adh = Medium
        then (score + mediumWeight (adherence cfg),
              reasonList @ [ReasonAdherenceCanImprove (adherenceRate adh)])
        else (score, reasonList))"

definition vitalStep ::
  "RiskCalculationConfig \<Rightarrow> rat \<times> Reason list \<Rightarrow> FlagDetail \<Rightarrow> rat \<times> Reason list" where
  "vitalStep cfg acc detail =
     (case acc of (score, reasonList) \<Rightarrow>
        (case flag detail of
           PRESSURE_HIGH \<Rightarrow>
             (score + pressure_weight (pressure (vitals cfg)) *
                        (if severity detail = SevHigh then 3 / 2 else 1),
              reasonList @ [ReasonPressureHigh (flag_value detail)])
         | PRESSURE_LOW \<Rightarrow>
             (score + pressure_weight (pressure (vitals cfg)),
              reasonList @ [ReasonPressureLow (flag_value detail)])
         | GLUCOSE_HIGH \<Rightarrow>
             (score + glucose_weight (glucose (vitals cfg)) *
                        (if severity detail = SevHigh then 3 / 2 else 1),
              reasonList @ [ReasonGlucoseHigh (flag_value detail)])
         | GLUCOSE_LOW \<Rightarrow>
             (score + glucose_weight (glucose (vitals cfg)) * (3 / 2),
              reasonList @ [ReasonGlucoseLow (flag_value detail)])
         | HEART_RATE_HIGH \<Rightarrow>
             (score + heartRate_weight (heartRate (vitals cfg)),
              reasonList @ [ReasonHeartRateHigh (flag_value detail)])
         | HEART_RATE_LOW \<Rightarrow>
             (score + heartRate_weight (heartRate (vitals cfg)),
              reasonList @ [ReasonHeartRateLow (flag_value detail)])
         | TEMPERATURE_HIGH \<Rightarrow>
             (score + temperature_weight (temperature (vitals cfg)),
              reasonList @ [ReasonFever (flag_value detail)])
         | TEMPERATURE_LOW \<Rightarrow>
             (score + temperature_weight (temperature (vitals cfg)),
              reasonList @ [ReasonHypothermia (flag_value detail)])
         | OXYGEN_LOW \<Rightarrow>
             (score + oxygen_weight (oxygen (vitals cfg)) *
                        (if severity detail = SevHigh then 3 / 2 else 1),
              reasonList @ [ReasonOxygenLow (flag_value detail)])))"

definition examsStep ::
  "RiskCalculationConfig \<Rightarrow> ExamsAnalysis \<Rightarrow> rat \<times> Reason list \<Rightarrow> rat \<times> Reason list" where
  "examsStep cfg ex acc =
     (let acc1 =
            (case acc of (score, reasonList) \<Rightarrow>
               if 0 < overdueExams ex
               then (score + overdueWeight (exams cfg) * of_nat (overdueExams ex),
                     reasonList @ [ReasonOverdueExams (overdueExams ex) (overdueDays (exams cfg))])
               else (score, reasonList))
      in (case acc1 of (score, reasonList) \<Rightarrow>
            if 3 < pendingExams ex
            then (score + pendingWeight (exams cfg),
                  reasonList @ [ReasonPendingExams (pendingExams ex)])
            else (score, reasonList)))"

definition accumulateScore ::
  "RiskCalculationConfig \<Rightarrow> AdherenceAnalysis \<Rightarrow> VitalsAnalysis \<Rightarrow> ExamsAnalysis \<Rightarrow>
   rat \<times> Reason list" where
  \<comment> \<open>\<open>score\<close> and \<open>reasons\<close> when the statement \<open>score = Math.min(100, Math.max(0, score))\<close>
      is reached.\<close>
  "accumulateScore cfg adh vit ex =
     examsStep cfg ex (foldl (vitalStep cfg) (adherenceStep cfg adh (0, [])) (flagDetails vit))"

definition calculateRiskScore ::
  "RiskCalculationConfig \<Rightarrow> AdherenceAnalysis \<Rightarrow> VitalsAnalysis \<Rightarrow> ExamsAnalysis \<Rightarrow> RiskScore" where
  "calculateRiskScore cfg adh vit ex =
     (case accumulateScore cfg adh vit ex of (score0, reasonList) \<Rightarrow>
        (let score = min 100 (max 0 score0);
             riskLevel = (if score \<le> lowMax (riskLevels cfg) then LevelLow
                          else if score \<le> moderateMax (riskLevels cfg) then LevelModerate
                          else LevelHigh)
         in \<lparr> risk_value = Math_round (score * 100) / 100, level = riskLevel,
              reasons = reasonList \<rparr>))"

subsection \<open>generateRecommendations\<close>

text \<open>
  The recommendation texts are the source's, written without the diacritics of the
  Portuguese originals. \<open>decimal\<close> is the decimal numeral that a template literal
  interpolates for a non-negative integer (\<open>${exams.overdueExams}\<close>).
\<close>

definition digitChar :: "nat \<Rightarrow> char" where
  \<comment> \<open>The characters \<open>0\<close> to \<open>9\<close> have the codes 48 to 57.\<close>
  "digitChar d = char_of (d + 48)"

fun decimal :: "nat \<Rightarrow> string" where
  "decimal n =
     (if 10 \<le> n then decimal (n div 10) @ [digitChar (n mod 10)] else [digitChar n])"

definition rec_adherence_bad_1 :: string where
  "rec_adherence_bad_1 = ''Refoccar estrategias de adesao: revisar horarios de medicacao, verificar suporte do cuidador e avaliar possiveis barreiras.''"

definition rec_adherence_bad_2 :: string where
  "rec_adherence_bad_2 = ''Configurar lembretes mais frequentes para o paciente e notificar o cuidador sobre medicacoes perdidas.''"

definition rec_adherence_medium :: string where
  "rec_adherence_medium = ''Reforcar a importancia da adesao ao tratamento com o paciente e cuidador.''"

definition rec_pressure_high_urgent :: string where
  "rec_pressure_high_urgent = ''URGENTE: Pressao arterial muito elevada. Avaliar necessidade de ajuste imediato da medicacao anti-hipertensiva com o medico responsavel.''"

definition rec_pressure_high :: string where
  "rec_pressure_high = ''Avaliar ajuste da medicacao anti-hipertensiva com o profissional responsavel e intensificar monitorizacao.''"

definition rec_pressure_low :: string where
  "rec_pressure_low = ''Investigar causas de hipotensao: verificar hidratacao, ajustar medicacao se necessario.''"

definition rec_glucose_high_1 :: string where
  "rec_glucose_high_1 = ''Glicemia acima da meta: revisar medicacao antidiabetica, reforcar orientacoes de dieta e atividade fisica.''"

definition rec_glucose_high_2 :: string where
  "rec_glucose_high_2 = ''Intensificar frequencia de monitorizacao glicemica e considerar consulta com endocrinologista.''"

definition rec_glucose_low_urgent :: string where
  "rec_glucose_low_urgent = ''URGENTE: Episodios de hipoglicemia grave detectados. Revisar imediatamente doses de medicacao e horarios de alimentacao.''"

definition rec_glucose_low :: string where
  "rec_glucose_low = ''Atencao aos episodios de hipoglicemia: ajustar doses de medicacao e revisar padrao alimentar.''"

definition rec_oxygen_low :: string where
  "rec_oxygen_low = ''Saturacao de oxigenio baixa: avaliar necessidade de oxigenioterapia e investigar causas respiratorias ou cardiacas.''"

definition rec_overdue_exams :: "nat \<Rightarrow> string" where
  "rec_overdue_exams n = ''Reagendar '' @ decimal n @ '' exame(s) atrasado(s) o mais breve possivel e revisar resultados anteriores.''"

definition rec_pending_exams :: string where
  "rec_pending_exams = ''Organizar agenda de exames pendentes para melhor acompanhamento clinico.''"

definition rec_risk_high_1 :: string where
  "rec_risk_high_1 = ''RISCO ALTO: Agendar consulta presencial urgente para reavaliacao completa do quadro clinico.''"

definition rec_risk_high_2 :: string where
  "rec_risk_high_2 = ''Considerar intensificar acompanhamento com visitas domiciliares ou telemedicina mais frequentes.''"

definition rec_risk_moderate :: string where
  "rec_risk_moderate = ''Risco moderado: agendar consulta de acompanhamento nas proximas 2 semanas.''"

definition rec_stable :: string where
  "rec_stable = ''Paciente apresenta boa adesao e sinais vitais dentro dos parametros. Manter acompanhamento de rotina.''"

definition severityIsHigh :: "FlagDetail option \<Rightarrow> bool" where
  \<comment> \<open>\<open>detail && detail.severity === 'high'\<close> for the result of \<open>Array.prototype.find\<close>.\<close>
  "severityIsHigh found = (case found of None \<Rightarrow> False | Some detail \<Rightarrow> severity detail = SevHigh)"

definition ruleRecommendations ::
  "AdherenceAnalysis \<Rightarrow> VitalsAnalysis \<Rightarrow> ExamsAnalysis \<Rightarrow> RiskScore \<Rightarrow> string list" where
  \<comment> \<open>The array \<open>recommendations\<close> when the test \<open>recommendations.length === 0\<close> is reached.\<close>
  "ruleRecommendations adh vit ex riskScore =
     (let hasHighPressure = PRESSURE_HIGH \<in> set (flags vit);
          hasLowPressure = PRESSURE_LOW \<in> set (flags vit);
          hasHighGlucose = GLUCOSE_HIGH \<in> set (flags vit);
          hasLowGlucose = GLUCOSE_LOW \<in> set (flags vit);
          hasOxygenIssue = OXYGEN_LOW \<in> set (flags vit)
      in (if adherenceStatus adh = Bad then [rec_adherence_bad_1, rec_adherence_bad_2]
          else if adherenceStatus adh = Medium then [rec_adherence_medium]
          else []) @
         (if hasHighPressure
          then (if severityIsHigh (find (\<lambda>d. flag d = PRESSURE_HIGH) (flagDetails vit))
                then [rec_pressure_high_urgent] else [rec_pressure_high])
          else []) @
         (if hasLowPressure then [rec_pressure_low] else []) @
         (if hasHighGlucose then [rec_glucose_high_1, rec_glucose_high_2] else []) @
         (if hasLowGlucose
          then (if severityIsHigh (find (\<lambda>d. flag d = GLUCOSE_LOW) (flagDetails vit))
                then [rec_glucose_low_urgent] else [rec_glucose_low])
          else []) @
         (if hasOxygenIssue then [rec_oxygen_low] else []) @
         (if 0 < overdueExams ex then [rec_overdue_exams (overdueExams ex)] else []) @
         (if 3 < pendingExams ex then [rec_pending_exams] else []) @
         (if level riskScore = LevelHigh then [rec_risk_high_1, rec_risk_high_2]
          else if level riskScore = LevelModerate then [rec_risk_moderate]
          else []))"

definition generateRecommendations ::
  "AdherenceAnalysis \<Rightarrow> VitalsAnalysis \<Rightarrow> ExamsAnalysis \<Rightarrow> RiskScore \<Rightarrow> string list" where
  "generateRecommendations adh vit ex riskScore =
     (let recommendations = ruleRecommendations adh vit ex riskScore
      in if length recommendations = 0 then recommendations @ [rec_stable]
         else recommendations)"

subsection \<open>The constructor of AIService\<close>

text \<open>
  The TypeScript types are erased when the program runs: the constructor receives a plain
  object, or nothing, and builds \<open>this.config\<close> with the object spread
  \<open>{ ...DEFAULT_RISK_CONFIG, ...config }\<close>. A plain object is the list of its own
  properties in creation order, with distinct keys; a property holds a number or another
  object. Spreading copies the properties of its source one by one into the object under
  construction: a key that is already there keeps its place and takes the new value, a new
  key goes to the end. The copy is shallow: an object-valued property is taken as it is.

  The body of the constructor has no \<open>throw\<close> and calls no function; it completes
  normally with the new instance, which is the result \<open>Inr\<close>.
\<close>

datatype jsval = Num rat | Obj "(string \<times> jsval) list"

type_synonym jsobject = "(string \<times> jsval) list"

datatype error = Error string

record AIService =
  config :: jsobject

fun setProp :: "string \<Rightarrow> jsval \<Rightarrow> jsobject \<Rightarrow> jsobject" where
  "setProp k v [] = [(k, v)]"
| "setProp k v (p # ps) = (if fst p = k then (k, v) # ps else p # setProp k v ps)"

fun getProp :: "jsobject \<Rightarrow> string \<Rightarrow> jsval option" where
  "getProp [] k = None"
| "getProp (p # ps) k = (if fst p = k then Some (snd p) else getProp ps k)"

fun getPath :: "jsobject \<Rightarrow> string list \<Rightarrow> jsval option" where
  \<comment> \<open>\<open>o.k1.k2\<close>, with \<open>None\<close> for \<open>undefined\<close>. A read through a missing object, which
      throws in JavaScript, is \<open>None\<close> too; no path below reads through one.\<close>
  "getPath obj [] = Some (Obj obj)"
| "getPath obj [k] = getProp obj k"
| "getPath obj (k # ks) = (case getProp obj k of Some (Obj inner) \<Rightarrow> getPath inner ks | _ \<Rightarrow> None)"

definition copyProps :: "jsobject \<Rightarrow> jsobject \<Rightarrow> jsobject" where
  "copyProps target source = foldl (\<lambda>t p. setProp (fst p) (snd p) t) target source"

definition spread2 :: "jsobject \<Rightarrow> jsobject \<Rightarrow> jsobject" where
  \<comment> \<open>\<open>{ ...a, ...b }\<close>\<close>
  "spread2 a b = copyProps (copyProps [] a) b"

text \<open>
  A value of a configuration type is the object with the fields of the type. The
  analyzers read the configuration field by field (\<open>this.config.adherence.goodThreshold\<close>
  and so on); for an instance whose configuration is \<open>obj_of_config c\<close> every such read
  gives the field of \<open>c\<close>, which is why the analyzers above take \<open>c\<close> as a parameter.
\<close>

definition obj_of_adherence :: "AdherenceConfig \<Rightarrow> jsobject" where
  "obj_of_adherence a =
     [(''goodThreshold'', Num (goodThreshold a)), (''mediumThreshold'', Num (mediumThreshold a)),
      (''badWeight'', Num (badWeight a)), (''mediumWeight'', Num (mediumWeight a))]"

definition obj_of_pressure :: "PressureConfig \<Rightarrow> jsobject" where
  "obj_of_pressure a =
     [(''systolicHigh'', Num (systolicHigh a)), (''systolicLow'', Num (systolicLow a)),
      (''diastolicHigh'', Num (diastolicHigh a)), (''diastolicLow'', Num (diastolicLow a)),
      (''weight'', Num (pressure_weight a))]"

definition obj_of_glucose :: "GlucoseConfig \<Rightarrow> jsobject" where
  "obj_of_glucose a =
     [(''high'', Num (glucose_high a)), (''low'', Num (glucose_low a)),
      (''weight'', Num (glucose_weight a))]"

definition obj_of_heartRate :: "HeartRateConfig \<Rightarrow> jsobject" where
  "obj_of_heartRate a =
     [(''high'', Num (heartRate_high a)), (''low'', Num (heartRate_low a)),
      (''weight'', Num (heartRate_weight a))]"

definition obj_of_temperature :: "TemperatureConfig \<Rightarrow> jsobject" where
  "obj_of_temperature a =
     [(''high'', Num (temperature_high a)), (''low'', Num (temperature_low a)),
      (''weight'', Num (temperature_weight a))]"

definition obj_of_oxygen :: "OxygenConfig \<Rightarrow> jsobject" where
  "obj_of_oxygen a = [(''low'', Num (oxygen_low a)), (''weight'', Num (oxygen_weight a))]"

definition obj_of_vitals :: "VitalsConfig \<Rightarrow> jsobject" where
  "obj_of_vitals a =
     [(''pressure'', Obj (obj_of_pressure (pressure a))),
      (''glucose'', Obj (obj_of_glucose (glucose a))),
      (''heartRate'', Obj (obj_of_heartRate (heartRate a))),
      (''temperature'', Obj (obj_of_temperature (temperature a))),
      (''oxygen'', Obj (obj_of_oxygen (oxygen a)))]"

definition obj_of_exams :: "ExamsConfig \<Rightarrow> jsobject" where
  "obj_of_exams a =
     [(''overdueDays'', Num (overdueDays a)), (''overdueWeight'', Num (overdueWeight a)),
      (''pendingWeight'', Num (pendingWeight a))]"

definition obj_of_riskLevels :: "RiskLevelsConfig \<Rightarrow> jsobject" where
  "obj_of_riskLevels a = [(''lowMax'', Num (lowMax a)), (''moderateMax'', Num (moderateMax a))]"

definition obj_of_config :: "RiskCalculationConfig \<Rightarrow> jsobject" where
  "obj_of_config c =
     [(''adherence'', Obj (obj_of_adherence (adherence c))),
      (''vitals'', Obj (obj_of_vitals (vitals c))),
      (''exams'', Obj (obj_of_exams (exams c))),
      (''riskLevels'', Obj (obj_of_riskLevels (riskLevels c)))]"

definition AIService_constructor :: "jsobject option \<Rightarrow> error + AIService" where
  "AIService_constructor cfg =
     Inr \<lparr> config = spread2 (obj_of_config DEFAULT_RISK_CONFIG)
                             (case cfg of None \<Rightarrow> [] | Some c \<Rightarrow> c) \<rparr>"

text \<open>
  \<open>Partial<RiskCalculationConfig>\<close>, the declared type of the constructor's argument: each
  of the four sections may be absent, and a section that is present is complete.
\<close>

record PartialConfig =
  partial_adherence :: "AdherenceConfig option"
  partial_vitals :: "VitalsConfig option"
  partial_exams :: "ExamsConfig option"
  partial_riskLevels :: "RiskLevelsConfig option"

definition obj_of_partial :: "PartialConfig \<Rightarrow> jsobject" where
  "obj_of_partial p =
     (case partial_adherence p of None \<Rightarrow> [] | Some a \<Rightarrow> [(''adherence'', Obj (obj_of_adherence a))]) @
     (case partial_vitals p of None \<Rightarrow> [] | Some a \<Rightarrow> [(''vitals'', Obj (obj_of_vitals a))]) @
     (case partial_exams p of None \<Rightarrow> [] | Some a \<Rightarrow> [(''exams'', Obj (obj_of_exams a))]) @
     (case partial_riskLevels p of None \<Rightarrow> [] | Some a \<Rightarrow> [(''riskLevels'', Obj (obj_of_riskLevels a))])"

definition withSections :: "RiskCalculationConfig \<Rightarrow> PartialConfig \<Rightarrow> RiskCalculationConfig" where
  \<comment> \<open>The configuration \<open>d\<close> with the sections that \<open>p\<close> has put in place of its own.\<close>
  "withSections d p =
     \<lparr> adherence = (case partial_adherence p of None \<Rightarrow> adherence d | Some a \<Rightarrow> a),
       vitals = (case partial_vitals p of None \<Rightarrow> vitals d | Some a \<Rightarrow> a),
       exams = (case partial_exams p of None \<Rightarrow> exams d | Some a \<Rightarrow> a),
       riskLevels = (case partial_riskLevels p of None \<Rightarrow> riskLevels d | Some a \<Rightarrow> a) \<rparr>"

definition configPath :: "error + AIService \<Rightarrow> string list \<Rightarrow> jsval option" where
  \<comment> \<open>\<open>this.config.k1.k2\<close> of the instance that a construction returned.\<close>
  "configPath r ks = (case r of Inl _ \<Rightarrow> None | Inr s \<Rightarrow> getPath (config s) ks)"

section \<open>Notions of the specification\<close>

text \<open>
  The definitions of this section are not code of the program: they say what the
  properties below talk about.
\<close>

subsection \<open>Readings in the window\<close>

definition inWindow :: "int \<Rightarrow> VitalType \<Rightarrow> VitalRecord list \<Rightarrow> VitalRecord list" where
  \<comment> \<open>The readings of one channel recorded in the trailing seven days, in input order.\<close>
  "inWindow now t vitalRecords =
     filter (\<lambda>v. type v = t) (filter (\<lambda>v. daysAgo now 7 \<le> recordedAt v) vitalRecords)"

fun mostRecent :: "VitalRecord list \<Rightarrow> VitalRecord option" where
  \<comment> \<open>A reading with the greatest \<open>recordedAt\<close>: of several, the first of the list.\<close>
  "mostRecent [] = None"
| "mostRecent (v # vs) =
     (case mostRecent vs of None \<Rightarrow> Some v
      | Some w \<Rightarrow> if recordedAt w \<le> recordedAt v then Some v else Some w)"

definition latestValue :: "int \<Rightarrow> VitalType \<Rightarrow> VitalRecord list \<Rightarrow> rat option" where
  \<comment> \<open>The numeric value of the most recent in-window reading of a channel, if it has one.\<close>
  "latestValue now t vitalRecords =
     (case mostRecent (inWindow now t vitalRecords) of None \<Rightarrow> None
      | Some l \<Rightarrow> numericValue l)"

definition wellFormedPressure :: "VitalRecord \<Rightarrow> bool" where
  "wellFormedPressure v = (systolic v \<noteq> None \<and> diastolic v \<noteq> None)"

definition lacksBothPressureFields :: "VitalRecord \<Rightarrow> bool" where
  "lacksBothPressureFields v = (systolic v = None \<and> diastolic v = None)"

definition latestPressureWellFormed :: "int \<Rightarrow> VitalRecord list \<Rightarrow> bool" where
  "latestPressureWellFormed now vitalRecords =
     (case mostRecent (inWindow now Blood_pressure vitalRecords) of None \<Rightarrow> False
      | Some l \<Rightarrow> wellFormedPressure l)"

definition meetsPressureHigh :: "RiskCalculationConfig \<Rightarrow> VitalRecord \<Rightarrow> bool" where
  \<comment> \<open>systolic at or above \<open>systolicHigh\<close>, or diastolic at or above \<open>diastolicHigh\<close>\<close>
  "meetsPressureHigh cfg v =
     (ge_num (systolic v) (systolicHigh (pressure (vitals cfg))) \<or>
      ge_num (diastolic v) (diastolicHigh (pressure (vitals cfg))))"

definition meetsPressureLow :: "RiskCalculationConfig \<Rightarrow> VitalRecord \<Rightarrow> bool" where
  "meetsPressureLow cfg v =
     (le_num (systolic v) (systolicLow (pressure (vitals cfg))) \<or>
      le_num (diastolic v) (diastolicLow (pressure (vitals cfg))))"

definition meetsGlucoseHigh :: "RiskCalculationConfig \<Rightarrow> VitalRecord \<Rightarrow> bool" where
  "meetsGlucoseHigh cfg v = ge_num (numericValue v) (glucose_high (glucose (vitals cfg)))"

definition meetsGlucoseLow :: "RiskCalculationConfig \<Rightarrow> VitalRecord \<Rightarrow> bool" where
  "meetsGlucoseLow cfg v = le_num (numericValue v) (glucose_low (glucose (vitals cfg)))"

definition countMeeting :: "(VitalRecord \<Rightarrow> bool) \<Rightarrow> VitalRecord list \<Rightarrow> nat" where
  "countMeeting P readings = length (filter P readings)"

definition isPressureFlag :: "FlagDetail \<Rightarrow> bool" where
  "isPressureFlag d = (flag d = PRESSURE_HIGH \<or> flag d = PRESSURE_LOW)"

definition pressureDetails :: "VitalsAnalysis \<Rightarrow> FlagDetail list" where
  \<comment> \<open>The flag details of the pressure channel.\<close>
  "pressureDetails va = filter isPressureFlag (flagDetails va)"

definition wellFormedOnly :: "VitalRecord list \<Rightarrow> VitalRecord list" where
  \<comment> \<open>The input without the blood-pressure records that miss systolic or diastolic.\<close>
  "wellFormedOnly vitalRecords =
     filter (\<lambda>v. type v = Blood_pressure \<longrightarrow> wellFormedPressure v) vitalRecords"

definition withoutEmptyPressure :: "VitalRecord list \<Rightarrow> VitalRecord list" where
  \<comment> \<open>The input without the blood-pressure records that miss both systolic and diastolic.\<close>
  "withoutEmptyPressure vitalRecords =
     filter (\<lambda>v. \<not> (type v = Blood_pressure \<and> lacksBothPressureFields v)) vitalRecords"

fun channelOf :: "VitalFlag \<Rightarrow> VitalType" where
  "channelOf PRESSURE_HIGH = Blood_pressure"
| "channelOf PRESSURE_LOW = Blood_pressure"
| "channelOf GLUCOSE_HIGH = Glucose"
| "channelOf GLUCOSE_LOW = Glucose"
| "channelOf HEART_RATE_HIGH = Heart_rate"
| "channelOf HEART_RATE_LOW = Heart_rate"
| "channelOf TEMPERATURE_HIGH = Temperature"
| "channelOf TEMPERATURE_LOW = Temperature"
| "channelOf OXYGEN_LOW = Oxygen_saturation"

definition readingValue :: "VitalRecord \<Rightarrow> rat option" where
  \<comment> \<open>What a flag detail reports of a reading: the systolic pressure, or the numeric value.\<close>
  "readingValue v = (if type v = Blood_pressure then systolic v else numericValue v)"

fun severityTier :: "VitalFlag \<Rightarrow> rat \<Rightarrow> Severity" where
  \<comment> \<open>The severity cut-offs of each flag.\<close>
  "severityTier PRESSURE_HIGH x = (if 160 \<le> x then SevHigh else if 150 \<le> x then SevMedium else SevLow)"
| "severityTier PRESSURE_LOW x = (if x \<le> 80 then SevHigh else if x \<le> 85 then SevMedium else SevLow)"
| "severityTier GLUCOSE_HIGH x = (if 250 \<le> x then SevHigh else if 200 \<le> x then SevMedium else SevLow)"
| "severityTier GLUCOSE_LOW x = (if x \<le> 50 then SevHigh else if x \<le> 60 then SevMedium else SevLow)"
| "severityTier HEART_RATE_HIGH x = (if 120 \<le> x then SevHigh else if 110 \<le> x then SevMedium else SevLow)"
| "severityTier HEART_RATE_LOW x = (if x \<le> 40 then SevHigh else if x \<le> 45 then SevMedium else SevLow)"
| "severityTier TEMPERATURE_HIGH x = (if 39 \<le> x then SevHigh else if 77 / 2 \<le> x then SevMedium else SevLow)"
| "severityTier TEMPERATURE_LOW x = (if x \<le> 34 then SevHigh else if x \<le> 69 / 2 then SevMedium else SevLow)"
| "severityTier OXYGEN_LOW x = (if x \<le> 88 then SevHigh else if x \<le> 90 then SevMedium else SevLow)"

subsection \<open>Contributions to the risk score\<close>

fun channelWeight :: "RiskCalculationConfig \<Rightarrow> VitalFlag \<Rightarrow> rat" where
  \<comment> \<open>The configured weight of the channel of a flag.\<close>
  "channelWeight cfg PRESSURE_HIGH = pressure_weight (pressure (vitals cfg))"
| "channelWeight cfg PRESSURE_LOW = pressure_weight (pressure (vitals cfg))"
| "channelWeight cfg GLUCOSE_HIGH = glucose_weight (glucose (vitals cfg))"
| "channelWeight cfg GLUCOSE_LOW = glucose_weight (glucose (vitals cfg))"
| "channelWeight cfg HEART_RATE_HIGH = heartRate_weight (heartRate (vitals cfg))"
| "channelWeight cfg HEART_RATE_LOW = heartRate_weight (heartRate (vitals cfg))"
| "channelWeight cfg TEMPERATURE_HIGH = temperature_weight (temperature (vitals cfg))"
| "channelWeight cfg TEMPERATURE_LOW = temperature_weight (temperature (vitals cfg))"
| "channelWeight cfg OXYGEN_LOW = oxygen_weight (oxygen (vitals cfg))"

definition claimedMultiplier :: "FlagDetail \<Rightarrow> rat" where
  \<comment> \<open>The multiplier as the specification words it: 1.5 for hypoglycemia, and for a flag
      of the pressure, glucose or oxygen channel with severity high; 1 otherwise.\<close>
  "claimedMultiplier d =
     (if flag d = GLUCOSE_LOW then 3 / 2
      else if channelOf (flag d) \<in> {Blood_pressure, Glucose, Oxygen_saturation} \<and>
              severity d = SevHigh then 3 / 2
      else 1)"

definition severityMultiplier :: "FlagDetail \<Rightarrow> rat" where
  \<comment> \<open>1.5 for hypoglycemia, and for the flags PRESSURE_HIGH, GLUCOSE_HIGH and OXYGEN_LOW
      with severity high; 1 otherwise.\<close>
  "severityMultiplier d =
     (if flag d = GLUCOSE_LOW then 3 / 2
      else if flag d \<in> {PRESSURE_HIGH, GLUCOSE_HIGH, OXYGEN_LOW} \<and> severity d = SevHigh
      then 3 / 2
      else 1)"

definition flagContribution :: "RiskCalculationConfig \<Rightarrow> FlagDetail \<Rightarrow> rat" where
  "flagContribution cfg d = channelWeight cfg (flag d) * severityMultiplier d"

subsection \<open>The risk level of a number\<close>

definition levelFor :: "RiskCalculationConfig \<Rightarrow> rat \<Rightarrow> RiskLevel" where
  \<comment> \<open>at most \<open>lowMax\<close>: low; at most \<open>moderateMax\<close>: moderate; else high\<close>
  "levelFor cfg x =
     (if x \<le> lowMax (riskLevels cfg) then LevelLow
      else if x \<le> moderateMax (riskLevels cfg) then LevelModerate
      else LevelHigh)"

definition clampedScore ::
  "RiskCalculationConfig \<Rightarrow> AdherenceAnalysis \<Rightarrow> VitalsAnalysis \<Rightarrow> ExamsAnalysis \<Rightarrow> rat" where
  \<comment> \<open>The accumulated score limited to the interval from 0 to 100, before it is rounded.\<close>
  "clampedScore cfg adh vit ex = min 100 (max 0 (fst (accumulateScore cfg adh vit ex)))"

definition hasTwoDecimals :: "rat \<Rightarrow> bool" where
  "hasTwoDecimals x = (of_int \<lfloor>x * 100\<rfloor> = x * 100)"

definition weightsOf :: "RiskCalculationConfig \<Rightarrow> rat list" where
  "weightsOf cfg =
     [badWeight (adherence cfg), mediumWeight (adherence cfg),
      pressure_weight (pressure (vitals cfg)), glucose_weight (glucose (vitals cfg)),
      heartRate_weight (heartRate (vitals cfg)), temperature_weight (temperature (vitals cfg)),
      oxygen_weight (oxygen (vitals cfg)),
      overdueWeight (exams cfg), pendingWeight (exams cfg)]"

subsection \<open>Rules of the recommendation generator\<close>

definition anyRuleFires ::
  "AdherenceAnalysis \<Rightarrow> VitalsAnalysis \<Rightarrow> ExamsAnalysis \<Rightarrow> RiskScore \<Rightarrow> bool" where
  \<comment> \<open>The trigger of some rule other than the default holds.\<close>
  "anyRuleFires adh vit ex riskScore =
     (adherenceStatus adh = Bad \<or> adherenceStatus adh = Medium \<or>
      PRESSURE_HIGH \<in> set (flags vit) \<or> PRESSURE_LOW \<in> set (flags vit) \<or>
      GLUCOSE_HIGH \<in> set (flags vit) \<or> GLUCOSE_LOW \<in> set (flags vit) \<or>
      OXYGEN_LOW \<in> set (flags vit) \<or>
      0 < overdueExams ex \<or> 3 < pendingExams ex \<or>
      level riskScore = LevelHigh \<or> level riskScore = LevelModerate)"

subsection \<open>Validity of a configuration\<close>

definition invalidConfig :: "RiskCalculationConfig \<Rightarrow> bool" where
  \<comment> \<open>The good threshold is below the medium one, or the risk-level boundaries are not
      in increasing order.\<close>
  "invalidConfig c =
     (goodThreshold (adherence c) < mediumThreshold (adherence c) \<or>
      moderateMax (riskLevels c) \<le> lowMax (riskLevels c))"

section \<open>Verified properties\<close>

subsection \<open>Adherence\<close>

lemma analyzeAdherence_status:
  "adherenceStatus (analyzeAdherence cfg now rs) =
     (if goodThreshold (adherence cfg) \<le> adherenceRate (analyzeAdherence cfg now rs) then Good
      else if mediumThreshold (adherence cfg) \<le> adherenceRate (analyzeAdherence cfg now rs)
      then Medium
      else Bad)"
  by (simp add: analyzeAdherence_def Let_def)

lemma analyzeAdherence_no_events:
  "filter (\<lambda>r. daysAgo now 30 \<le> scheduledAt r) rs = [] \<Longrightarrow>
   adherenceRate (analyzeAdherence cfg now rs) = 100"
  by (simp add: analyzeAdherence_def Let_def)

text \<open>
  Claim C7. \<open>analyzeAdherence\<close> is a total function: it returns a summary for every
  configuration, clock and reminder list. When no reminder falls in the trailing thirty
  days (the empty list included) the adherence rate is 100, and the status is good for
  every good threshold of at most 100 (the default is 90). The thresholds are inclusive:
  a rate equal to the good threshold gives the status good, and a rate equal to the medium
  threshold gives the status medium whenever the medium threshold is below the good one
  (the defaults are 75 and 90).
\<close>

theorem analyzeAdherence_defined_and_inclusive:
  "(filter (\<lambda>r. daysAgo now 30 \<le> scheduledAt r) rs = [] \<longrightarrow>
      adherenceRate (analyzeAdherence cfg now rs) = 100 \<and>
      (goodThreshold (adherence cfg) \<le> 100 \<longrightarrow>
         adherenceStatus (analyzeAdherence cfg now rs) = Good)) \<and>
   (adherenceRate (analyzeAdherence cfg now rs) = goodThreshold (adherence cfg) \<longrightarrow>
      adherenceStatus (analyzeAdherence cfg now rs) = Good) \<and>
   (adherenceRate (analyzeAdherence cfg now rs) = mediumThreshold (adherence cfg) \<and>
    mediumThreshold (adherence cfg) < goodThreshold (adherence cfg) \<longrightarrow>
      adherenceStatus (analyzeAdherence cfg now rs) = Medium)"
  using analyzeAdherence_status [of cfg now rs] analyzeAdherence_no_events [of now rs cfg]
  by auto

text \<open>
  The witness runs the default configuration on the empty list, on ten in-window
  reminders of which nine were taken or taken late (rate 90), and on four in-window
  reminders of which three were taken or taken late (rate 75); a reminder older than the
  window is in the second list and is not counted.
\<close>

theorem analyzeAdherence_defined_and_inclusive_witness:
  "adherenceRate (analyzeAdherence DEFAULT_RISK_CONFIG 0 []) = 100 \<and>
   adherenceStatus (analyzeAdherence DEFAULT_RISK_CONFIG 0 []) = Good \<and>
   adherenceRate (analyzeAdherence DEFAULT_RISK_CONFIG 0
     (\<lparr> scheduledAt = - 2592000001, status = Missed \<rparr> #
      \<lparr> scheduledAt = 0, status = Missed \<rparr> #
      \<lparr> scheduledAt = - 5, status = Late \<rparr> #
      replicate 8 \<lparr> scheduledAt = - 86400000, status = Taken \<rparr>)) = 90 \<and>
   adherenceStatus (analyzeAdherence DEFAULT_RISK_CONFIG 0
     (\<lparr> scheduledAt = - 2592000001, status = Missed \<rparr> #
      \<lparr> scheduledAt = 0, status = Missed \<rparr> #
      \<lparr> scheduledAt = - 5, status = Late \<rparr> #
      replicate 8 \<lparr> scheduledAt = - 86400000, status = Taken \<rparr>)) = Good \<and>
   adherenceRate (analyzeAdherence DEFAULT_RISK_CONFIG 0
     [\<lparr> scheduledAt = 0, status = Taken \<rparr>, \<lparr> scheduledAt = - 5, status = Late \<rparr>,
      \<lparr> scheduledAt = 7, status = Taken \<rparr>, \<lparr> scheduledAt = 0, status = Skipped \<rparr>]) = 75 \<and>
   adherenceStatus (analyzeAdherence DEFAULT_RISK_CONFIG 0
     [\<lparr> scheduledAt = 0, status = Taken \<rparr>, \<lparr> scheduledAt = - 5, status = Late \<rparr>,
      \<lparr> scheduledAt = 7, status = Taken \<rparr>, \<lparr> scheduledAt = 0, status = Skipped \<rparr>]) = Medium"
proof -
  let ?r90 = "\<lparr> scheduledAt = - 2592000001, status = Missed \<rparr> #
      \<lparr> scheduledAt = 0, status = Missed \<rparr> #
      \<lparr> scheduledAt = - 5, status = Late \<rparr> #
      replicate 8 \<lparr> scheduledAt = - 86400000, status = Taken \<rparr>"
  let ?r75 = "[\<lparr> scheduledAt = 0, status = Taken \<rparr>, \<lparr> scheduledAt = - 5, status = Late \<rparr>,
      \<lparr> scheduledAt = 7, status = Taken \<rparr>, \<lparr> scheduledAt = 0, status = Skipped \<rparr>]"
  have g: "goodThreshold (adherence DEFAULT_RISK_CONFIG) = 90"
    and m: "mediumThreshold (adherence DEFAULT_RISK_CONFIG) = 75"
    by (simp_all add: DEFAULT_RISK_CONFIG_def)
  have e: "filter (\<lambda>r. daysAgo 0 30 \<le> scheduledAt r) ([] :: ReminderRecord list) = []"
    by simp
  have r90: "adherenceRate (analyzeAdherence DEFAULT_RISK_CONFIG 0 ?r90) = 90"
    by code_simp
  have r75: "adherenceRate (analyzeAdherence DEFAULT_RISK_CONFIG 0 ?r75) = 75"
    by code_simp
  show ?thesis
    using analyzeAdherence_defined_and_inclusive [of 0 "[]" DEFAULT_RISK_CONFIG]
      analyzeAdherence_defined_and_inclusive [of 0 ?r90 DEFAULT_RISK_CONFIG]
      analyzeAdherence_defined_and_inclusive [of 0 ?r75 DEFAULT_RISK_CONFIG]
      e r90 r75 g m
    by simp
qed

subsection \<open>Grouping and the most recent reading\<close>

lemma foldl_pushGrouped:
  "foldl pushGrouped g vs t =
     (if filter (\<lambda>v. type v = t) vs = [] then g t
      else Some ((case g t of None \<Rightarrow> [] | Some l \<Rightarrow> l) @ filter (\<lambda>v. type v = t) vs))"
  by (induction vs arbitrary: g) (auto simp: pushGrouped_def split: option.splits)

lemma groupVitalsByType_eq:
  "groupVitalsByType vs t =
     (if filter (\<lambda>v. type v = t) vs = [] then None
      else Some (sortByRecency (filter (\<lambda>v. type v = t) vs)))"
  by (simp add: groupVitalsByType_def foldl_pushGrouped)

lemma mostRecent_sortByRecency:
  "mostRecent xs = (case sortByRecency xs of [] \<Rightarrow> None | l # _ \<Rightarrow> Some l)"
  by (induction xs) (auto simp: sortByRecency_def split: list.splits)

lemma mostRecent_None_iff: "mostRecent xs = None \<longleftrightarrow> xs = []"
  by (cases xs) (auto split: option.splits)

lemma mostRecent_max:
  "mostRecent xs = Some l \<Longrightarrow> l \<in> set xs \<and> (\<forall>v\<in>set xs. recordedAt v \<le> recordedAt l)"
  by (induction xs arbitrary: l) (auto simp: mostRecent_None_iff split: option.splits if_splits)

lemma latestOf_group:
  "latestOf (groupVitalsByType vs t) = mostRecent (filter (\<lambda>v. type v = t) vs)"
proof (cases "filter (\<lambda>v. type v = t) vs = []")
  case True
  then show ?thesis by (simp add: groupVitalsByType_eq latestOf_def)
next
  case False
  then show ?thesis
    by (simp add: groupVitalsByType_eq latestOf_def mostRecent_sortByRecency)
qed

lemma readingsOf_group:
  "readingsOf (groupVitalsByType vs t) = sortByRecency (filter (\<lambda>v. type v = t) vs)"
  by (simp add: groupVitalsByType_eq readingsOf_def sortByRecency_def)

lemma bucket_latest:
  "latestOf (groupVitalsByType (filter (\<lambda>v. daysAgo now 7 \<le> recordedAt v) vs) t) =
   mostRecent (inWindow now t vs)"
  by (simp add: latestOf_group inWindow_def)

lemma bucket_count:
  "length (filter P (readingsOf (groupVitalsByType
       (filter (\<lambda>v. daysAgo now 7 \<le> recordedAt v) vs) t))) =
   countMeeting P (inWindow now t vs)"
  by (simp add: readingsOf_group sortByRecency_def filter_sort countMeeting_def inWindow_def)

lemma mostRecent_type:
  "mostRecent (inWindow now t vs) = Some l \<Longrightarrow> type l = t"
  using mostRecent_max [of "inWindow now t vs" l] by (simp add: inWindow_def)

subsection \<open>What each block of analyzeVitals emits\<close>

lemma flagDetails_analyzeVitals:
  "flagDetails (analyzeVitals cfg now vs) =
     (let G = groupVitalsByType (filter (\<lambda>v. daysAgo now 7 \<le> recordedAt v) vs)
      in pressureBlock cfg (G Blood_pressure) @ glucoseBlock cfg (G Glucose) @
         heartRateBlock cfg (G Heart_rate) @ temperatureBlock cfg (G Temperature) @
         oxygenBlock cfg (G Oxygen_saturation))"
  by (simp add: analyzeVitals_def Let_def)

lemma flags_analyzeVitals:
  "flags (analyzeVitals cfg now vs) = map flag (flagDetails (analyzeVitals cfg now vs))"
  by (simp add: analyzeVitals_def Let_def)

lemma pressureBlock_None: "latestOf b = None \<Longrightarrow> pressureBlock cfg b = []"
  by (simp add: pressureBlock_def)

lemma pressureBlock_malformed:
  "latestOf b = Some l \<Longrightarrow> \<not> wellFormedPressure l \<Longrightarrow> pressureBlock cfg b = []"
  by (auto simp: pressureBlock_def wellFormedPressure_def split: option.split)

lemma pressureBlock_Some:
  assumes "latestOf b = Some l" "systolic l = Some s" "diastolic l = Some dia"
  shows "pressureBlock cfg b =
           (if 2 \<le> length (filter (meetsPressureHigh cfg) (readingsOf b))
            then [\<lparr> flag = PRESSURE_HIGH, flag_value = s,
                    threshold = systolicHigh (pressure (vitals cfg)),
                    severity = severityTier PRESSURE_HIGH s \<rparr>]
            else []) @
           (if 2 \<le> length (filter (meetsPressureLow cfg) (readingsOf b))
            then [\<lparr> flag = PRESSURE_LOW, flag_value = s,
                    threshold = systolicLow (pressure (vitals cfg)),
                    severity = severityTier PRESSURE_LOW s \<rparr>]
            else [])"
proof -
  have h: "meetsPressureHigh cfg = (\<lambda>v. ge_num (systolic v) (systolicHigh (pressure (vitals cfg))) \<or>
                          ge_num (diastolic v) (diastolicHigh (pressure (vitals cfg))))"
    by (rule ext) (simp add: meetsPressureHigh_def)
  have l: "meetsPressureLow cfg = (\<lambda>v. le_num (systolic v) (systolicLow (pressure (vitals cfg))) \<or>
                          le_num (diastolic v) (diastolicLow (pressure (vitals cfg))))"
    by (rule ext) (simp add: meetsPressureLow_def)
  show ?thesis
    unfolding pressureBlock_def Let_def h l using assms by simp
qed

lemma glucoseBlock_None: "latestOf b = None \<Longrightarrow> glucoseBlock cfg b = []"
  by (simp add: glucoseBlock_def)

lemma glucoseBlock_noValue:
  "latestOf b = Some l \<Longrightarrow> numericValue l = None \<Longrightarrow> glucoseBlock cfg b = []"
  by (simp add: glucoseBlock_def)

lemma glucoseBlock_Some:
  assumes "latestOf b = Some l" "numericValue l = Some x"
  shows "glucoseBlock cfg b =
           (if 2 \<le> length (filter (meetsGlucoseHigh cfg) (readingsOf b))
            then [\<lparr> flag = GLUCOSE_HIGH, flag_value = x,
                    threshold = glucose_high (glucose (vitals cfg)),
                    severity = severityTier GLUCOSE_HIGH x \<rparr>]
            else []) @
           (if 1 \<le> length (filter (meetsGlucoseLow cfg) (readingsOf b))
            then [\<lparr> flag = GLUCOSE_LOW, flag_value = x,
                    threshold = glucose_low (glucose (vitals cfg)),
                    severity = severityTier GLUCOSE_LOW x \<rparr>]
            else [])"
proof -
  have h: "meetsGlucoseHigh cfg = (\<lambda>v. ge_num (numericValue v) (glucose_high (glucose (vitals cfg))))"
    by (rule ext) (simp add: meetsGlucoseHigh_def)
  have l: "meetsGlucoseLow cfg = (\<lambda>v. le_num (numericValue v) (glucose_low (glucose (vitals cfg))))"
    by (rule ext) (simp add: meetsGlucoseLow_def)
  show ?thesis
    unfolding glucoseBlock_def Let_def h l using assms by simp
qed

lemma heartRateBlock_None: "latestOf b = None \<Longrightarrow> heartRateBlock cfg b = []"
  by (simp add: heartRateBlock_def)

lemma heartRateBlock_noValue:
  "latestOf b = Some l \<Longrightarrow> numericValue l = None \<Longrightarrow> heartRateBlock cfg b = []"
  by (simp add: heartRateBlock_def)

lemma heartRateBlock_Some:
  assumes "latestOf b = Some l" "numericValue l = Some x"
  shows "heartRateBlock cfg b =
           (if heartRate_high (heartRate (vitals cfg)) \<le> x
            then [\<lparr> flag = HEART_RATE_HIGH, flag_value = x,
                    threshold = heartRate_high (heartRate (vitals cfg)),
                    severity = severityTier HEART_RATE_HIGH x \<rparr>]
            else []) @
           (if x \<le> heartRate_low (heartRate (vitals cfg))
            then [\<lparr> flag = HEART_RATE_LOW, flag_value = x,
                    threshold = heartRate_low (heartRate (vitals cfg)),
                    severity = severityTier HEART_RATE_LOW x \<rparr>]
            else [])"
  unfolding heartRateBlock_def using assms by simp

lemma temperatureBlock_None: "latestOf b = None \<Longrightarrow> temperatureBlock cfg b = []"
  by (simp add: temperatureBlock_def)

lemma temperatureBlock_noValue:
  "latestOf b = Some l \<Longrightarrow> numericValue l = None \<Longrightarrow> temperatureBlock cfg b = []"
  by (simp add: temperatureBlock_def)

lemma temperatureBlock_Some:
  assumes "latestOf b = Some l" "numericValue l = Some x"
  shows "temperatureBlock cfg b =
           (if temperature_high (temperature (vitals cfg)) \<le> x
            then [\<lparr> flag = TEMPERATURE_HIGH, flag_value = x,
                    threshold = temperature_high (temperature (vitals cfg)),
                    severity = severityTier TEMPERATURE_HIGH x \<rparr>]
            else []) @
           (if x \<le> temperature_low (temperature (vitals cfg))
            then [\<lparr> flag = TEMPERATURE_LOW, flag_value = x,
                    threshold = temperature_low (temperature (vitals cfg)),
                    severity = severityTier TEMPERATURE_LOW x \<rparr>]
            else [])"
  unfolding temperatureBlock_def using assms by simp

lemma oxygenBlock_None: "latestOf b = None \<Longrightarrow> oxygenBlock cfg b = []"
  by (simp add: oxygenBlock_def)

lemma oxygenBlock_noValue:
  "latestOf b = Some l \<Longrightarrow> numericValue l = None \<Longrightarrow> oxygenBlock cfg b = []"
  by (simp add: oxygenBlock_def)

lemma oxygenBlock_Some:
  assumes "latestOf b = Some l" "numericValue l = Some x"
  shows "oxygenBlock cfg b =
           (if x \<le> oxygen_low (oxygen (vitals cfg))
            then [\<lparr> flag = OXYGEN_LOW, flag_value = x,
                    threshold = oxygen_low (oxygen (vitals cfg)),
                    severity = severityTier OXYGEN_LOW x \<rparr>]
            else [])"
  unfolding oxygenBlock_def using assms by simp

lemma pressureBlock_detail:
  assumes "d \<in> set (pressureBlock cfg b)"
  shows "(flag d = PRESSURE_HIGH \<or> flag d = PRESSURE_LOW) \<and>
         (\<exists>l. latestOf b = Some l \<and> systolic l = Some (flag_value d)) \<and>
         severity d = severityTier (flag d) (flag_value d)"
proof (cases "latestOf b")
  case None
  with assms show ?thesis by (simp add: pressureBlock_None)
next
  case (Some l)
  show ?thesis
  proof (cases "wellFormedPressure l")
    case False
    with Some assms show ?thesis by (simp add: pressureBlock_malformed)
  next
    case True
    then obtain s dia where sd: "systolic l = Some s" "diastolic l = Some dia"
      by (auto simp: wellFormedPressure_def)
    from assms show ?thesis
      unfolding pressureBlock_Some [OF Some sd]
      using Some sd by (auto simp del: severityTier.simps split: if_splits)
  qed
qed

lemma glucoseBlock_detail:
  assumes "d \<in> set (glucoseBlock cfg b)"
  shows "(flag d = GLUCOSE_HIGH \<or> flag d = GLUCOSE_LOW) \<and>
         (\<exists>l. latestOf b = Some l \<and> numericValue l = Some (flag_value d)) \<and>
         severity d = severityTier (flag d) (flag_value d)"
proof (cases "latestOf b")
  case None
  with assms show ?thesis by (simp add: glucoseBlock_None)
next
  case (Some l)
  show ?thesis
  proof (cases "numericValue l")
    case None
    with Some assms show ?thesis by (simp add: glucoseBlock_noValue)
  next
    case x: (Some x)
    from assms show ?thesis
      unfolding glucoseBlock_Some [OF Some x]
      using Some x by (auto simp del: severityTier.simps split: if_splits)
  qed
qed

lemma heartRateBlock_detail:
  assumes "d \<in> set (heartRateBlock cfg b)"
  shows "(flag d = HEART_RATE_HIGH \<or> flag d = HEART_RATE_LOW) \<and>
         (\<exists>l. latestOf b = Some l \<and> numericValue l = Some (flag_value d)) \<and>
         severity d = severityTier (flag d) (flag_value d)"
proof (cases "latestOf b")
  case None
  with assms show ?thesis by (simp add: heartRateBlock_None)
next
  case (Some l)
  show ?thesis
  proof (cases "numericValue l")
    case None
    with Some assms show ?thesis by (simp add: heartRateBlock_noValue)
  next
    case x: (Some x)
    from assms show ?thesis
      unfolding heartRateBlock_Some [OF Some x]
      using Some x by (auto simp del: severityTier.simps split: if_splits)
  qed
qed

lemma temperatureBlock_detail:
  assumes "d \<in> set (temperatureBlock cfg b)"
  shows "(flag d = TEMPERATURE_HIGH \<or> flag d = TEMPERATURE_LOW) \<and>
         (\<exists>l. latestOf b = Some l \<and> numericValue l = Some (flag_value d)) \<and>
         severity d = severityTier (flag d) (flag_value d)"
proof (cases "latestOf b")
  case None
  with assms show ?thesis by (simp add: temperatureBlock_None)
next
  case (Some l)
  show ?thesis
  proof (cases "numericValue l")
    case None
    with Some assms show ?thesis by (simp add: temperatureBlock_noValue)
  next
    case x: (Some x)
    from assms show ?thesis
      unfolding temperatureBlock_Some [OF Some x]
      using Some x by (auto simp del: severityTier.simps split: if_splits)
  qed
qed

lemma oxygenBlock_detail:
  assumes "d \<in> set (oxygenBlock cfg b)"
  shows "flag d = OXYGEN_LOW \<and>
         (\<exists>l. latestOf b = Some l \<and> numericValue l = Some (flag_value d)) \<and>
         severity d = severityTier (flag d) (flag_value d)"
proof (cases "latestOf b")
  case None
  with assms show ?thesis by (simp add: oxygenBlock_None)
next
  case (Some l)
  show ?thesis
  proof (cases "numericValue l")
    case None
    with Some assms show ?thesis by (simp add: oxygenBlock_noValue)
  next
    case x: (Some x)
    from assms show ?thesis
      unfolding oxygenBlock_Some [OF Some x]
      using Some x by (auto simp del: severityTier.simps split: if_splits)
  qed
qed

lemma pressureBlock_flags:
  "f \<in> flag ` set (pressureBlock cfg b) \<Longrightarrow> f = PRESSURE_HIGH \<or> f = PRESSURE_LOW"
  using pressureBlock_detail by blast

lemma glucoseBlock_flags:
  "f \<in> flag ` set (glucoseBlock cfg b) \<Longrightarrow> f = GLUCOSE_HIGH \<or> f = GLUCOSE_LOW"
  using glucoseBlock_detail by blast

lemma heartRateBlock_flags:
  "f \<in> flag ` set (heartRateBlock cfg b) \<Longrightarrow> f = HEART_RATE_HIGH \<or> f = HEART_RATE_LOW"
  using heartRateBlock_detail by blast

lemma temperatureBlock_flags:
  "f \<in> flag ` set (temperatureBlock cfg b) \<Longrightarrow> f = TEMPERATURE_HIGH \<or> f = TEMPERATURE_LOW"
  using temperatureBlock_detail by blast

lemma oxygenBlock_flags: "f \<in> flag ` set (oxygenBlock cfg b) \<Longrightarrow> f = OXYGEN_LOW"
  using oxygenBlock_detail by blast

lemma pressureBlock_high_iff:
  "PRESSURE_HIGH \<in> flag ` set (pressureBlock cfg b) \<longleftrightarrow>
   (case latestOf b of None \<Rightarrow> False | Some l \<Rightarrow> wellFormedPressure l) \<and>
   2 \<le> length (filter (meetsPressureHigh cfg) (readingsOf b))"
proof (cases "latestOf b")
  case None
  then show ?thesis by (simp add: pressureBlock_None)
next
  case (Some l)
  show ?thesis
  proof (cases "wellFormedPressure l")
    case False
    with Some show ?thesis by (simp add: pressureBlock_malformed)
  next
    case True
    then obtain s dia where sd: "systolic l = Some s" "diastolic l = Some dia"
      by (auto simp: wellFormedPressure_def)
    show ?thesis
      unfolding pressureBlock_Some [OF Some sd] using Some True
      by (auto simp del: severityTier.simps)
  qed
qed

lemma pressureBlock_low_iff:
  "PRESSURE_LOW \<in> flag ` set (pressureBlock cfg b) \<longleftrightarrow>
   (case latestOf b of None \<Rightarrow> False | Some l \<Rightarrow> wellFormedPressure l) \<and>
   2 \<le> length (filter (meetsPressureLow cfg) (readingsOf b))"
proof (cases "latestOf b")
  case None
  then show ?thesis by (simp add: pressureBlock_None)
next
  case (Some l)
  show ?thesis
  proof (cases "wellFormedPressure l")
    case False
    with Some show ?thesis by (simp add: pressureBlock_malformed)
  next
    case True
    then obtain s dia where sd: "systolic l = Some s" "diastolic l = Some dia"
      by (auto simp: wellFormedPressure_def)
    show ?thesis
      unfolding pressureBlock_Some [OF Some sd] using Some True
      by (auto simp del: severityTier.simps)
  qed
qed

lemma glucoseBlock_flag_iff:
  "(GLUCOSE_HIGH \<in> flag ` set (glucoseBlock cfg b) \<longleftrightarrow>
      (case latestOf b of None \<Rightarrow> False | Some l \<Rightarrow> numericValue l \<noteq> None) \<and>
      2 \<le> length (filter (meetsGlucoseHigh cfg) (readingsOf b))) \<and>
   (GLUCOSE_LOW \<in> flag ` set (glucoseBlock cfg b) \<longleftrightarrow>
      (case latestOf b of None \<Rightarrow> False | Some l \<Rightarrow> numericValue l \<noteq> None) \<and>
      1 \<le> length (filter (meetsGlucoseLow cfg) (readingsOf b)))"
proof (cases "latestOf b")
  case None
  then show ?thesis by (simp add: glucoseBlock_None)
next
  case (Some l)
  show ?thesis
  proof (cases "numericValue l")
    case None
    with Some show ?thesis by (simp add: glucoseBlock_noValue)
  next
    case x: (Some x)
    show ?thesis
      unfolding glucoseBlock_Some [OF Some x] using Some x
      by (auto simp del: severityTier.simps)
  qed
qed

lemma heartRateBlock_flag_iff:
  "(HEART_RATE_HIGH \<in> flag ` set (heartRateBlock cfg b) \<longleftrightarrow>
      ge_num (case latestOf b of None \<Rightarrow> None | Some l \<Rightarrow> numericValue l)
             (heartRate_high (heartRate (vitals cfg)))) \<and>
   (HEART_RATE_LOW \<in> flag ` set (heartRateBlock cfg b) \<longleftrightarrow>
      le_num (case latestOf b of None \<Rightarrow> None | Some l \<Rightarrow> numericValue l)
             (heartRate_low (heartRate (vitals cfg))))"
proof (cases "latestOf b")
  case None
  then show ?thesis by (simp add: heartRateBlock_None ge_num_def le_num_def)
next
  case (Some l)
  show ?thesis
  proof (cases "numericValue l")
    case None
    with Some show ?thesis by (simp add: heartRateBlock_noValue ge_num_def le_num_def)
  next
    case x: (Some x)
    show ?thesis
      unfolding heartRateBlock_Some [OF Some x] using Some x
      by (auto simp add: ge_num_def le_num_def simp del: severityTier.simps)
  qed
qed

lemma temperatureBlock_flag_iff:
  "(TEMPERATURE_HIGH \<in> flag ` set (temperatureBlock cfg b) \<longleftrightarrow>
      ge_num (case latestOf b of None \<Rightarrow> None | Some l \<Rightarrow> numericValue l)
             (temperature_high (temperature (vitals cfg)))) \<and>
   (TEMPERATURE_LOW \<in> flag ` set (temperatureBlock cfg b) \<longleftrightarrow>
      le_num (case latestOf b of None \<Rightarrow> None | Some l \<Rightarrow> numericValue l)
             (temperature_low (temperature (vitals cfg))))"
proof (cases "latestOf b")
  case None
  then show ?thesis by (simp add: temperatureBlock_None ge_num_def le_num_def)
next
  case (Some l)
  show ?thesis
  proof (cases "numericValue l")
    case None
    with Some show ?thesis by (simp add: temperatureBlock_noValue ge_num_def le_num_def)
  next
    case x: (Some x)
    show ?thesis
      unfolding temperatureBlock_Some [OF Some x] using Some x
      by (auto simp add: ge_num_def le_num_def simp del: severityTier.simps)
  qed
qed

lemma oxygenBlock_flag_iff:
  "OXYGEN_LOW \<in> flag ` set (oxygenBlock cfg b) \<longleftrightarrow>
     le_num (case latestOf b of None \<Rightarrow> None | Some l \<Rightarrow> numericValue l)
            (oxygen_low (oxygen (vitals cfg)))"
proof (cases "latestOf b")
  case None
  then show ?thesis by (simp add: oxygenBlock_None le_num_def)
next
  case (Some l)
  show ?thesis
  proof (cases "numericValue l")
    case None
    with Some show ?thesis by (simp add: oxygenBlock_noValue le_num_def)
  next
    case x: (Some x)
    show ?thesis
      unfolding oxygenBlock_Some [OF Some x] using Some x
      by (auto simp add: le_num_def simp del: severityTier.simps)
  qed
qed

lemma flag_in_analyzeVitals:
  "f \<in> set (flags (analyzeVitals cfg now vs)) \<longleftrightarrow>
   (f \<in> flag ` set (pressureBlock cfg (groupVitalsByType (filter (\<lambda>v. daysAgo now 7 \<le> recordedAt v) vs) Blood_pressure)) \<or>
    f \<in> flag ` set (glucoseBlock cfg (groupVitalsByType (filter (\<lambda>v. daysAgo now 7 \<le> recordedAt v) vs) Glucose)) \<or>
    f \<in> flag ` set (heartRateBlock cfg (groupVitalsByType (filter (\<lambda>v. daysAgo now 7 \<le> recordedAt v) vs) Heart_rate)) \<or>
    f \<in> flag ` set (temperatureBlock cfg (groupVitalsByType (filter (\<lambda>v. daysAgo now 7 \<le> recordedAt v) vs) Temperature)) \<or>
    f \<in> flag ` set (oxygenBlock cfg (groupVitalsByType (filter (\<lambda>v. daysAgo now 7 \<le> recordedAt v) vs) Oxygen_saturation)))"
  by (simp add: flags_analyzeVitals flagDetails_analyzeVitals Let_def image_Un)

lemma pressureBlock_only:
  "f \<noteq> PRESSURE_HIGH \<Longrightarrow> f \<noteq> PRESSURE_LOW \<Longrightarrow> f \<notin> flag ` set (pressureBlock cfg b)"
  using pressureBlock_flags [of f cfg b] by auto

lemma glucoseBlock_only:
  "f \<noteq> GLUCOSE_HIGH \<Longrightarrow> f \<noteq> GLUCOSE_LOW \<Longrightarrow> f \<notin> flag ` set (glucoseBlock cfg b)"
  using glucoseBlock_flags [of f cfg b] by auto

lemma heartRateBlock_only:
  "f \<noteq> HEART_RATE_HIGH \<Longrightarrow> f \<noteq> HEART_RATE_LOW \<Longrightarrow> f \<notin> flag ` set (heartRateBlock cfg b)"
  using heartRateBlock_flags [of f cfg b] by auto

lemma temperatureBlock_only:
  "f \<noteq> TEMPERATURE_HIGH \<Longrightarrow> f \<noteq> TEMPERATURE_LOW \<Longrightarrow>
   f \<notin> flag ` set (temperatureBlock cfg b)"
  using temperatureBlock_flags [of f cfg b] by auto

lemma oxygenBlock_only:
  "f \<noteq> OXYGEN_LOW \<Longrightarrow> f \<notin> flag ` set (oxygenBlock cfg b)"
  using oxygenBlock_flags [of f cfg b] by auto

lemmas foreign_flags =
  pressureBlock_only [of GLUCOSE_HIGH, simplified]
  pressureBlock_only [of GLUCOSE_LOW, simplified]
  pressureBlock_only [of HEART_RATE_HIGH, simplified]
  pressureBlock_only [of HEART_RATE_LOW, simplified]
  pressureBlock_only [of TEMPERATURE_HIGH, simplified]
  pressureBlock_only [of TEMPERATURE_LOW, simplified]
  pressureBlock_only [of OXYGEN_LOW, simplified]
  glucoseBlock_only [of PRESSURE_HIGH, simplified]
  glucoseBlock_only [of PRESSURE_LOW, simplified]
  glucoseBlock_only [of HEART_RATE_HIGH, simplified]
  glucoseBlock_only [of HEART_RATE_LOW, simplified]
  glucoseBlock_only [of TEMPERATURE_HIGH, simplified]
  glucoseBlock_only [of TEMPERATURE_LOW, simplified]
  glucoseBlock_only [of OXYGEN_LOW, simplified]
  heartRateBlock_only [of PRESSURE_HIGH, simplified]
  heartRateBlock_only [of PRESSURE_LOW, simplified]
  heartRateBlock_only [of GLUCOSE_HIGH, simplified]
  heartRateBlock_only [of GLUCOSE_LOW, simplified]
  heartRateBlock_only [of TEMPERATURE_HIGH, simplified]
  heartRateBlock_only [of TEMPERATURE_LOW, simplified]
  heartRateBlock_only [of OXYGEN_LOW, simplified]
  temperatureBlock_only [of PRESSURE_HIGH, simplified]
  temperatureBlock_only [of PRESSURE_LOW, simplified]
  temperatureBlock_only [of GLUCOSE_HIGH, simplified]
  temperatureBlock_only [of GLUCOSE_LOW, simplified]
  temperatureBlock_only [of HEART_RATE_HIGH, simplified]
  temperatureBlock_only [of HEART_RATE_LOW, simplified]
  temperatureBlock_only [of OXYGEN_LOW, simplified]
  oxygenBlock_only [of PRESSURE_HIGH, simplified]
  oxygenBlock_only [of PRESSURE_LOW, simplified]
  oxygenBlock_only [of GLUCOSE_HIGH, simplified]
  oxygenBlock_only [of GLUCOSE_LOW, simplified]
  oxygenBlock_only [of HEART_RATE_HIGH, simplified]
  oxygenBlock_only [of HEART_RATE_LOW, simplified]
  oxygenBlock_only [of TEMPERATURE_HIGH, simplified]
  oxygenBlock_only [of TEMPERATURE_LOW, simplified]

lemma flag_own_block:
  "PRESSURE_HIGH \<in> set (flags (analyzeVitals cfg now vs)) \<longleftrightarrow>
   PRESSURE_HIGH \<in> flag ` set (pressureBlock cfg (groupVitalsByType
      (filter (\<lambda>v. daysAgo now 7 \<le> recordedAt v) vs) Blood_pressure))"
  "PRESSURE_LOW \<in> set (flags (analyzeVitals cfg now vs)) \<longleftrightarrow>
   PRESSURE_LOW \<in> flag ` set (pressureBlock cfg (groupVitalsByType
      (filter (\<lambda>v. daysAgo now 7 \<le> recordedAt v) vs) Blood_pressure))"
  "GLUCOSE_HIGH \<in> set (flags (analyzeVitals cfg now vs)) \<longleftrightarrow>
   GLUCOSE_HIGH \<in> flag ` set (glucoseBlock cfg (groupVitalsByType
      (filter (\<lambda>v. daysAgo now 7 \<le> recordedAt v) vs) Glucose))"
  "GLUCOSE_LOW \<in> set (flags (analyzeVitals cfg now vs)) \<longleftrightarrow>
   GLUCOSE_LOW \<in> flag ` set (glucoseBlock cfg (groupVitalsByType
      (filter (\<lambda>v. daysAgo now 7 \<le> recordedAt v) vs) Glucose))"
  "HEART_RATE_HIGH \<in> set (flags (analyzeVitals cfg now vs)) \<longleftrightarrow>
   HEART_RATE_HIGH \<in> flag ` set (heartRateBlock cfg (groupVitalsByType
      (filter (\<lambda>v. daysAgo now 7 \<le> recordedAt v) vs) Heart_rate))"
  "HEART_RATE_LOW \<in> set (flags (analyzeVitals cfg now vs)) \<longleftrightarrow>
   HEART_RATE_LOW \<in> flag ` set (heartRateBlock cfg (groupVitalsByType
      (filter (\<lambda>v. daysAgo now 7 \<le> recordedAt v) vs) Heart_rate))"
  "TEMPERATURE_HIGH \<in> set (flags (analyzeVitals cfg now vs)) \<longleftrightarrow>
   TEMPERATURE_HIGH \<in> flag ` set (temperatureBlock cfg (groupVitalsByType
      (filter (\<lambda>v. daysAgo now 7 \<le> recordedAt v) vs) Temperature))"
  "TEMPERATURE_LOW \<in> set (flags (analyzeVitals cfg now vs)) \<longleftrightarrow>
   TEMPERATURE_LOW \<in> flag ` set (temperatureBlock cfg (groupVitalsByType
      (filter (\<lambda>v. daysAgo now 7 \<le> recordedAt v) vs) Temperature))"
  "OXYGEN_LOW \<in> set (flags (analyzeVitals cfg now vs)) \<longleftrightarrow>
   OXYGEN_LOW \<in> flag ` set (oxygenBlock cfg (groupVitalsByType
      (filter (\<lambda>v. daysAgo now 7 \<le> recordedAt v) vs) Oxygen_saturation))"
  unfolding flag_in_analyzeVitals by (simp_all only: foreign_flags simp_thms)

lemma pressure_high_flag_iff:
  "PRESSURE_HIGH \<in> set (flags (analyzeVitals cfg now vs)) \<longleftrightarrow>
   latestPressureWellFormed now vs \<and>
   2 \<le> countMeeting (meetsPressureHigh cfg) (inWindow now Blood_pressure vs)"
  by (simp only: flag_own_block
        pressureBlock_high_iff bucket_latest bucket_count latestPressureWellFormed_def)

lemma pressure_low_flag_iff:
  "PRESSURE_LOW \<in> set (flags (analyzeVitals cfg now vs)) \<longleftrightarrow>
   latestPressureWellFormed now vs \<and>
   2 \<le> countMeeting (meetsPressureLow cfg) (inWindow now Blood_pressure vs)"
  by (simp only: flag_own_block
        pressureBlock_low_iff bucket_latest bucket_count latestPressureWellFormed_def)

lemma latestValue_None_iff:
  "latestValue now t vs \<noteq> None \<longleftrightarrow>
   (case mostRecent (inWindow now t vs) of None \<Rightarrow> False | Some l \<Rightarrow> numericValue l \<noteq> None)"
  by (simp add: latestValue_def split: option.split)

lemma glucose_high_flag_iff:
  "GLUCOSE_HIGH \<in> set (flags (analyzeVitals cfg now vs)) \<longleftrightarrow>
   latestValue now Glucose vs \<noteq> None \<and>
   2 \<le> countMeeting (meetsGlucoseHigh cfg) (inWindow now Glucose vs)"
  by (simp only: flag_own_block
        glucoseBlock_flag_iff bucket_latest bucket_count latestValue_None_iff)

lemma glucose_low_flag_iff:
  "GLUCOSE_LOW \<in> set (flags (analyzeVitals cfg now vs)) \<longleftrightarrow>
   latestValue now Glucose vs \<noteq> None \<and>
   1 \<le> countMeeting (meetsGlucoseLow cfg) (inWindow now Glucose vs)"
  by (simp only: flag_own_block
        glucoseBlock_flag_iff bucket_latest bucket_count latestValue_None_iff)

lemma single_reading_flag_iff:
  "(HEART_RATE_HIGH \<in> set (flags (analyzeVitals cfg now vs)) \<longleftrightarrow>
      ge_num (latestValue now Heart_rate vs) (heartRate_high (heartRate (vitals cfg))))"
  "(HEART_RATE_LOW \<in> set (flags (analyzeVitals cfg now vs)) \<longleftrightarrow>
      le_num (latestValue now Heart_rate vs) (heartRate_low (heartRate (vitals cfg))))"
  "(TEMPERATURE_HIGH \<in> set (flags (analyzeVitals cfg now vs)) \<longleftrightarrow>
      ge_num (latestValue now Temperature vs) (temperature_high (temperature (vitals cfg))))"
  "(TEMPERATURE_LOW \<in> set (flags (analyzeVitals cfg now vs)) \<longleftrightarrow>
      le_num (latestValue now Temperature vs) (temperature_low (temperature (vitals cfg))))"
  "(OXYGEN_LOW \<in> set (flags (analyzeVitals cfg now vs)) \<longleftrightarrow>
      le_num (latestValue now Oxygen_saturation vs) (oxygen_low (oxygen (vitals cfg))))"
  by (simp_all only: flag_own_block
        heartRateBlock_flag_iff temperatureBlock_flag_iff oxygenBlock_flag_iff
        bucket_latest latestValue_def)

subsection \<open>Confirmation rules of the pressure and glucose channels\<close>

text \<open>
  Claim C2, as stated, says that PRESSURE_HIGH is emitted exactly when at least two
  in-window blood-pressure readings meet the high threshold. The three readings below are
  in the window; the two older ones are 145/92 and 142/90, the most recent one has no
  systolic value. Two readings meet the threshold and no PRESSURE_HIGH flag is emitted:
  the guard on the latest record skips the whole pressure block.
\<close>

theorem pressure_high_two_readings_counterexample:
  "2 \<le> countMeeting (meetsPressureHigh DEFAULT_RISK_CONFIG)
          (inWindow 0 Blood_pressure
            [\<lparr> type = Blood_pressure, systolic = Some 145, diastolic = Some 92,
               numericValue = None, recordedAt = - 2000 \<rparr>,
             \<lparr> type = Blood_pressure, systolic = Some 142, diastolic = Some 90,
               numericValue = None, recordedAt = - 1000 \<rparr>,
             \<lparr> type = Blood_pressure, systolic = None, diastolic = Some 80,
               numericValue = None, recordedAt = 0 \<rparr>]) \<and>
   PRESSURE_HIGH \<notin> set (flags (analyzeVitals DEFAULT_RISK_CONFIG 0
            [\<lparr> type = Blood_pressure, systolic = Some 145, diastolic = Some 92,
               numericValue = None, recordedAt = - 2000 \<rparr>,
             \<lparr> type = Blood_pressure, systolic = Some 142, diastolic = Some 90,
               numericValue = None, recordedAt = - 1000 \<rparr>,
             \<lparr> type = Blood_pressure, systolic = None, diastolic = Some 80,
               numericValue = None, recordedAt = 0 \<rparr>]))"
  by code_simp

text \<open>
  The same guard stands on the glucose block: a reading of 65 mg/dL followed by a more
  recent glucose record without a numeric value gives no GLUCOSE_LOW flag.
\<close>

lemma glucose_low_latest_without_value:
  "1 \<le> countMeeting (meetsGlucoseLow DEFAULT_RISK_CONFIG)
          (inWindow 0 Glucose
            [\<lparr> type = Glucose, systolic = None, diastolic = None,
               numericValue = Some 65, recordedAt = - 1000 \<rparr>,
             \<lparr> type = Glucose, systolic = None, diastolic = None,
               numericValue = None, recordedAt = 0 \<rparr>]) \<and>
   GLUCOSE_LOW \<notin> set (flags (analyzeVitals DEFAULT_RISK_CONFIG 0
            [\<lparr> type = Glucose, systolic = None, diastolic = None,
               numericValue = Some 65, recordedAt = - 1000 \<rparr>,
             \<lparr> type = Glucose, systolic = None, diastolic = None,
               numericValue = None, recordedAt = 0 \<rparr>]))"
  by code_simp

text \<open>
  Claim C2, amended. PRESSURE_HIGH is emitted if and only if the most recent in-window
  blood-pressure record has both systolic and diastolic and at least two in-window
  blood-pressure readings meet the high threshold (systolic at or above \<open>systolicHigh\<close>,
  or diastolic at or above \<open>diastolicHigh\<close>; a missing field meets nothing); so a single
  qualifying reading gives no PRESSURE_HIGH. GLUCOSE_HIGH is emitted only with at least
  two in-window glucose readings at or above \<open>glucose.high\<close>. When the most recent
  in-window glucose record has a numeric value, one in-window glucose reading at or below
  \<open>glucose.low\<close> suffices for GLUCOSE_LOW.
\<close>

theorem confirmation_rules:
  "(PRESSURE_HIGH \<in> set (flags (analyzeVitals cfg now vs)) \<longleftrightarrow>
      latestPressureWellFormed now vs \<and>
      2 \<le> countMeeting (meetsPressureHigh cfg) (inWindow now Blood_pressure vs)) \<and>
   (countMeeting (meetsPressureHigh cfg) (inWindow now Blood_pressure vs) \<le> 1 \<longrightarrow>
      PRESSURE_HIGH \<notin> set (flags (analyzeVitals cfg now vs))) \<and>
   (GLUCOSE_HIGH \<in> set (flags (analyzeVitals cfg now vs)) \<longrightarrow>
      2 \<le> countMeeting (meetsGlucoseHigh cfg) (inWindow now Glucose vs)) \<and>
   (latestValue now Glucose vs \<noteq> None \<and>
    1 \<le> countMeeting (meetsGlucoseLow cfg) (inWindow now Glucose vs) \<longrightarrow>
      GLUCOSE_LOW \<in> set (flags (analyzeVitals cfg now vs)))"
  using pressure_high_flag_iff [of cfg now vs] glucose_high_flag_iff [of cfg now vs]
    glucose_low_flag_iff [of cfg now vs]
  by auto

text \<open>
  The witness is the input of the test suite and of the specification: the readings
  145/92 and 142/90 give PRESSURE_HIGH, the single reading 145/92 does not; two glucose
  readings of 190 and 185 give GLUCOSE_HIGH; a single glucose reading of 65 gives
  GLUCOSE_LOW.
\<close>

theorem confirmation_rules_witness:
  "PRESSURE_HIGH \<in> set (flags (analyzeVitals DEFAULT_RISK_CONFIG 0
      [\<lparr> type = Blood_pressure, systolic = Some 145, diastolic = Some 92,
         numericValue = None, recordedAt = - 86400000 \<rparr>,
       \<lparr> type = Blood_pressure, systolic = Some 142, diastolic = Some 90,
         numericValue = None, recordedAt = - 86400000 \<rparr>])) \<and>
   PRESSURE_HIGH \<notin> set (flags (analyzeVitals DEFAULT_RISK_CONFIG 0
      [\<lparr> type = Blood_pressure, systolic = Some 145, diastolic = Some 92,
         numericValue = None, recordedAt = - 86400000 \<rparr>])) \<and>
   2 \<le> countMeeting (meetsGlucoseHigh DEFAULT_RISK_CONFIG) (inWindow 0 Glucose
      [\<lparr> type = Glucose, systolic = None, diastolic = None,
         numericValue = Some 190, recordedAt = - 86400000 \<rparr>,
       \<lparr> type = Glucose, systolic = None, diastolic = None,
         numericValue = Some 185, recordedAt = - 86400000 \<rparr>]) \<and>
   GLUCOSE_LOW \<in> set (flags (analyzeVitals DEFAULT_RISK_CONFIG 0
      [\<lparr> type = Glucose, systolic = None, diastolic = None,
         numericValue = Some 65, recordedAt = - 86400000 \<rparr>]))"
proof -
  let ?bp2 = "[\<lparr> type = Blood_pressure, systolic = Some 145, diastolic = Some 92,
         numericValue = None, recordedAt = - 86400000 \<rparr>,
       \<lparr> type = Blood_pressure, systolic = Some 142, diastolic = Some 90,
         numericValue = None, recordedAt = - 86400000 \<rparr>]"
  let ?bp1 = "[\<lparr> type = Blood_pressure, systolic = Some 145, diastolic = Some 92,
         numericValue = None, recordedAt = - 86400000 \<rparr>]"
  let ?gl2 = "[\<lparr> type = Glucose, systolic = None, diastolic = None,
         numericValue = Some 190, recordedAt = - 86400000 \<rparr>,
       \<lparr> type = Glucose, systolic = None, diastolic = None,
         numericValue = Some 185, recordedAt = - 86400000 \<rparr>]"
  let ?gl1 = "[\<lparr> type = Glucose, systolic = None, diastolic = None,
         numericValue = Some 65, recordedAt = - 86400000 \<rparr>]"
  have a: "latestPressureWellFormed 0 ?bp2 \<and>
           2 \<le> countMeeting (meetsPressureHigh DEFAULT_RISK_CONFIG)
                  (inWindow 0 Blood_pressure ?bp2)"
    by code_simp
  have b: "countMeeting (meetsPressureHigh DEFAULT_RISK_CONFIG)
             (inWindow 0 Blood_pressure ?bp1) \<le> 1"
    by code_simp
  have c: "GLUCOSE_HIGH \<in> set (flags (analyzeVitals DEFAULT_RISK_CONFIG 0 ?gl2))"
    by code_simp
  have d: "latestValue 0 Glucose ?gl1 \<noteq> None \<and>
           1 \<le> countMeeting (meetsGlucoseLow DEFAULT_RISK_CONFIG) (inWindow 0 Glucose ?gl1)"
    by code_simp
  show ?thesis
    using confirmation_rules [of DEFAULT_RISK_CONFIG 0 ?bp2]
      confirmation_rules [of DEFAULT_RISK_CONFIG 0 ?bp1]
      confirmation_rules [of DEFAULT_RISK_CONFIG 0 ?gl2]
      confirmation_rules [of DEFAULT_RISK_CONFIG 0 ?gl1]
      a b c d
    by simp
qed

subsection \<open>Heart rate, temperature and oxygen saturation\<close>

text \<open>
  Claim C3, as stated, says that one in-window reading meeting the threshold is enough
  for the flag. Below, both heart-rate readings are in the window, the older one is
  110 bpm and meets the threshold of 100, the most recent one is 80 bpm: no
  HEART_RATE_HIGH flag is emitted, since only the most recent reading is examined.
\<close>

theorem heart_rate_any_reading_counterexample:
  "\<lparr> type = Heart_rate, systolic = None, diastolic = None,
      numericValue = Some 110, recordedAt = - 3600000 \<rparr>
     \<in> set (inWindow 0 Heart_rate
          [\<lparr> type = Heart_rate, systolic = None, diastolic = None,
             numericValue = Some 110, recordedAt = - 3600000 \<rparr>,
           \<lparr> type = Heart_rate, systolic = None, diastolic = None,
             numericValue = Some 80, recordedAt = 0 \<rparr>]) \<and>
   ge_num (Some 110) (heartRate_high (heartRate (vitals DEFAULT_RISK_CONFIG))) \<and>
   HEART_RATE_HIGH \<notin> set (flags (analyzeVitals DEFAULT_RISK_CONFIG 0
          [\<lparr> type = Heart_rate, systolic = None, diastolic = None,
             numericValue = Some 110, recordedAt = - 3600000 \<rparr>,
           \<lparr> type = Heart_rate, systolic = None, diastolic = None,
             numericValue = Some 80, recordedAt = 0 \<rparr>]))"
  by code_simp

text \<open>
  Claim C3, amended. For heart rate, temperature and oxygen saturation no reading is
  counted: each flag is emitted if and only if the most recent in-window reading of the
  channel has a numeric value that meets the threshold (heart rate at or above
  \<open>heartRate.high\<close> or at or below \<open>heartRate.low\<close>; temperature at or above
  \<open>temperature.high\<close> or at or below \<open>temperature.low\<close>; oxygen at or below
  \<open>oxygen.low\<close>). An older reading never triggers a flag.
\<close>

theorem single_reading_triggers:
  "(HEART_RATE_HIGH \<in> set (flags (analyzeVitals cfg now vs)) \<longleftrightarrow>
      ge_num (latestValue now Heart_rate vs) (heartRate_high (heartRate (vitals cfg)))) \<and>
   (HEART_RATE_LOW \<in> set (flags (analyzeVitals cfg now vs)) \<longleftrightarrow>
      le_num (latestValue now Heart_rate vs) (heartRate_low (heartRate (vitals cfg)))) \<and>
   (TEMPERATURE_HIGH \<in> set (flags (analyzeVitals cfg now vs)) \<longleftrightarrow>
      ge_num (latestValue now Temperature vs) (temperature_high (temperature (vitals cfg)))) \<and>
   (TEMPERATURE_LOW \<in> set (flags (analyzeVitals cfg now vs)) \<longleftrightarrow>
      le_num (latestValue now Temperature vs) (temperature_low (temperature (vitals cfg)))) \<and>
   (OXYGEN_LOW \<in> set (flags (analyzeVitals cfg now vs)) \<longleftrightarrow>
      le_num (latestValue now Oxygen_saturation vs) (oxygen_low (oxygen (vitals cfg))))"
  by (simp only: single_reading_flag_iff simp_thms)

text \<open>
  The witness: a most recent heart rate of 104 bpm after an older one of 70, a single
  temperature of 38 degrees and a single saturation of 92 per cent, each exactly at or
  just beyond its threshold, give HEART_RATE_HIGH, TEMPERATURE_HIGH and OXYGEN_LOW.
\<close>

theorem single_reading_triggers_witness:
  "HEART_RATE_HIGH \<in> set (flags (analyzeVitals DEFAULT_RISK_CONFIG 0
      [\<lparr> type = Heart_rate, systolic = None, diastolic = None,
         numericValue = Some 70, recordedAt = - 3600000 \<rparr>,
       \<lparr> type = Heart_rate, systolic = None, diastolic = None,
         numericValue = Some 104, recordedAt = 0 \<rparr>,
       \<lparr> type = Temperature, systolic = None, diastolic = None,
         numericValue = Some 38, recordedAt = 0 \<rparr>,
       \<lparr> type = Oxygen_saturation, systolic = None, diastolic = None,
         numericValue = Some 92, recordedAt = 0 \<rparr>])) \<and>
   TEMPERATURE_HIGH \<in> set (flags (analyzeVitals DEFAULT_RISK_CONFIG 0
      [\<lparr> type = Heart_rate, systolic = None, diastolic = None,
         numericValue = Some 70, recordedAt = - 3600000 \<rparr>,
       \<lparr> type = Heart_rate, systolic = None, diastolic = None,
         numericValue = Some 104, recordedAt = 0 \<rparr>,
       \<lparr> type = Temperature, systolic = None, diastolic = None,
         numericValue = Some 38, recordedAt = 0 \<rparr>,
       \<lparr> type = Oxygen_saturation, systolic = None, diastolic = None,
         numericValue = Some 92, recordedAt = 0 \<rparr>])) \<and>
   OXYGEN_LOW \<in> set (flags (analyzeVitals DEFAULT_RISK_CONFIG 0
      [\<lparr> type = Heart_rate, systolic = None, diastolic = None,
         numericValue = Some 70, recordedAt = - 3600000 \<rparr>,
       \<lparr> type = Heart_rate, systolic = None, diastolic = None,
         numericValue = Some 104, recordedAt = 0 \<rparr>,
       \<lparr> type = Temperature, systolic = None, diastolic = None,
         numericValue = Some 38, recordedAt = 0 \<rparr>,
       \<lparr> type = Oxygen_saturation, systolic = None, diastolic = None,
         numericValue = Some 92, recordedAt = 0 \<rparr>]))"
proof -
  let ?vs = "[\<lparr> type = Heart_rate, systolic = None, diastolic = None,
         numericValue = Some 70, recordedAt = - 3600000 \<rparr>,
       \<lparr> type = Heart_rate, systolic = None, diastolic = None,
         numericValue = Some 104, recordedAt = 0 \<rparr>,
       \<lparr> type = Temperature, systolic = None, diastolic = None,
         numericValue = Some 38, recordedAt = 0 \<rparr>,
       \<lparr> type = Oxygen_saturation, systolic = None, diastolic = None,
         numericValue = Some 92, recordedAt = 0 \<rparr>]"
  have a: "ge_num (latestValue 0 Heart_rate ?vs)
             (heartRate_high (heartRate (vitals DEFAULT_RISK_CONFIG)))"
    by code_simp
  have b: "ge_num (latestValue 0 Temperature ?vs)
             (temperature_high (temperature (vitals DEFAULT_RISK_CONFIG)))"
    by code_simp
  have c: "le_num (latestValue 0 Oxygen_saturation ?vs)
             (oxygen_low (oxygen (vitals DEFAULT_RISK_CONFIG)))"
    by code_simp
  show ?thesis
    using single_reading_triggers [of DEFAULT_RISK_CONFIG 0 ?vs] a b c by simp
qed

subsection \<open>Where the value and the severity of a flag detail come from\<close>

lemma detail_from_latest_aux:
  assumes "latestOf (groupVitalsByType (filter (\<lambda>v. daysAgo now 7 \<le> recordedAt v) vs) t)
             = Some l"
    and "readingValue (l\<lparr> type := t \<rparr>) = Some x"
  shows "mostRecent (inWindow now t vs) = Some l \<and> readingValue l = Some x"
proof -
  from assms(1) have m: "mostRecent (inWindow now t vs) = Some l"
    by (simp only: bucket_latest)
  from mostRecent_type [OF m] have "l\<lparr> type := t \<rparr> = l" by simp
  with assms(2) m show ?thesis by simp
qed

text \<open>
  Claim C10. In every flag detail that \<open>analyzeVitals\<close> emits, the reported value is the
  value of the most recent in-window reading of the channel of the flag (its systolic
  pressure for the pressure flags, its numeric value otherwise), and the severity is the
  tier of that value: neither comes from the readings that met the trigger threshold.
\<close>

theorem flag_detail_from_latest:
  "\<forall>d \<in> set (flagDetails (analyzeVitals cfg now vs)).
     \<exists>l. mostRecent (inWindow now (channelOf (flag d)) vs) = Some l \<and>
         readingValue l = Some (flag_value d) \<and>
         severity d = severityTier (flag d) (flag_value d)"
proof
  fix d
  assume "d \<in> set (flagDetails (analyzeVitals cfg now vs))"
  then consider
      "d \<in> set (pressureBlock cfg (groupVitalsByType
          (filter (\<lambda>v. daysAgo now 7 \<le> recordedAt v) vs) Blood_pressure))"
    | "d \<in> set (glucoseBlock cfg (groupVitalsByType
          (filter (\<lambda>v. daysAgo now 7 \<le> recordedAt v) vs) Glucose))"
    | "d \<in> set (heartRateBlock cfg (groupVitalsByType
          (filter (\<lambda>v. daysAgo now 7 \<le> recordedAt v) vs) Heart_rate))"
    | "d \<in> set (temperatureBlock cfg (groupVitalsByType
          (filter (\<lambda>v. daysAgo now 7 \<le> recordedAt v) vs) Temperature))"
    | "d \<in> set (oxygenBlock cfg (groupVitalsByType
          (filter (\<lambda>v. daysAgo now 7 \<le> recordedAt v) vs) Oxygen_saturation))"
    by (auto simp only: flagDetails_analyzeVitals Let_def set_append Un_iff)
  then show "\<exists>l. mostRecent (inWindow now (channelOf (flag d)) vs) = Some l \<and>
         readingValue l = Some (flag_value d) \<and>
         severity d = severityTier (flag d) (flag_value d)"
  proof cases
    case 1
    from pressureBlock_detail [OF 1] obtain l where
      f: "flag d = PRESSURE_HIGH \<or> flag d = PRESSURE_LOW" and
      l: "latestOf (groupVitalsByType (filter (\<lambda>v. daysAgo now 7 \<le> recordedAt v) vs)
            Blood_pressure) = Some l" and
      v: "systolic l = Some (flag_value d)" and
      s: "severity d = severityTier (flag d) (flag_value d)"
      by blast
    from v have "readingValue (l\<lparr> type := Blood_pressure \<rparr>) = Some (flag_value d)"
      by (simp add: readingValue_def)
    from detail_from_latest_aux [OF l this] f s show ?thesis
      by (auto simp del: severityTier.simps)
  next
    case 2
    from glucoseBlock_detail [OF 2] obtain l where
      f: "flag d = GLUCOSE_HIGH \<or> flag d = GLUCOSE_LOW" and
      l: "latestOf (groupVitalsByType (filter (\<lambda>v. daysAgo now 7 \<le> recordedAt v) vs)
            Glucose) = Some l" and
      v: "numericValue l = Some (flag_value d)" and
      s: "severity d = severityTier (flag d) (flag_value d)"
      by blast
    from v have "readingValue (l\<lparr> type := Glucose \<rparr>) = Some (flag_value d)"
      by (simp add: readingValue_def)
    from detail_from_latest_aux [OF l this] f s show ?thesis
      by (auto simp del: severityTier.simps)
  next
    case 3
    from heartRateBlock_detail [OF 3] obtain l where
      f: "flag d = HEART_RATE_HIGH \<or> flag d = HEART_RATE_LOW" and
      l: "latestOf (groupVitalsByType (filter (\<lambda>v. daysAgo now 7 \<le> recordedAt v) vs)
            Heart_rate) = Some l" and
      v: "numericValue l = Some (flag_value d)" and
      s: "severity d = severityTier (flag d) (flag_value d)"
      by blast
    from v have "readingValue (l\<lparr> type := Heart_rate \<rparr>) = Some (flag_value d)"
      by (simp add: readingValue_def)
    from detail_from_latest_aux [OF l this] f s show ?thesis
      by (auto simp del: severityTier.simps)
  next
    case 4
    from temperatureBlock_detail [OF 4] obtain l where
      f: "flag d = TEMPERATURE_HIGH \<or> flag d = TEMPERATURE_LOW" and
      l: "latestOf (groupVitalsByType (filter (\<lambda>v. daysAgo now 7 \<le> recordedAt v) vs)
            Temperature) = Some l" and
      v: "numericValue l = Some (flag_value d)" and
      s: "severity d = severityTier (flag d) (flag_value d)"
      by blast
    from v have "readingValue (l\<lparr> type := Temperature \<rparr>) = Some (flag_value d)"
      by (simp add: readingValue_def)
    from detail_from_latest_aux [OF l this] f s show ?thesis
      by (auto simp del: severityTier.simps)
  next
    case 5
    from oxygenBlock_detail [OF 5] obtain l where
      f: "flag d = OXYGEN_LOW" and
      l: "latestOf (groupVitalsByType (filter (\<lambda>v. daysAgo now 7 \<le> recordedAt v) vs)
            Oxygen_saturation) = Some l" and
      v: "numericValue l = Some (flag_value d)" and
      s: "severity d = severityTier (flag d) (flag_value d)"
      by blast
    from v have "readingValue (l\<lparr> type := Oxygen_saturation \<rparr>) = Some (flag_value d)"
      by (simp add: readingValue_def)
    from detail_from_latest_aux [OF l this] f s show ?thesis
      by (auto simp del: severityTier.simps)
  qed
qed

text \<open>
  The witness is the example of the claim: an older in-window glucose reading of
  55 mg/dL triggers GLUCOSE_LOW, the most recent glucose reading is 120 mg/dL, and the
  one flag detail emitted reports the value 120 with severity low.
\<close>

theorem flag_detail_from_latest_witness:
  "flagDetails (analyzeVitals DEFAULT_RISK_CONFIG 0
      [\<lparr> type = Glucose, systolic = None, diastolic = None,
         numericValue = Some 55, recordedAt = - 7200000 \<rparr>,
       \<lparr> type = Glucose, systolic = None, diastolic = None,
         numericValue = Some 120, recordedAt = 0 \<rparr>]) =
     [\<lparr> flag = GLUCOSE_LOW, flag_value = 120, threshold = 70, severity = SevLow \<rparr>] \<and>
   mostRecent (inWindow 0 Glucose
      [\<lparr> type = Glucose, systolic = None, diastolic = None,
         numericValue = Some 55, recordedAt = - 7200000 \<rparr>,
       \<lparr> type = Glucose, systolic = None, diastolic = None,
         numericValue = Some 120, recordedAt = 0 \<rparr>]) =
     Some \<lparr> type = Glucose, systolic = None, diastolic = None,
            numericValue = Some 120, recordedAt = 0 \<rparr> \<and>
   severityTier GLUCOSE_LOW 120 = SevLow"
proof -
  let ?vs = "[\<lparr> type = Glucose, systolic = None, diastolic = None,
         numericValue = Some 55, recordedAt = - 7200000 \<rparr>,
       \<lparr> type = Glucose, systolic = None, diastolic = None,
         numericValue = Some 120, recordedAt = 0 \<rparr>]"
  let ?d = "\<lparr> flag = GLUCOSE_LOW, flag_value = 120, threshold = 70, severity = SevLow \<rparr>"
  have e: "flagDetails (analyzeVitals DEFAULT_RISK_CONFIG 0 ?vs) = [?d]"
    by code_simp
  then have "?d \<in> set (flagDetails (analyzeVitals DEFAULT_RISK_CONFIG 0 ?vs))"
    by simp
  with flag_detail_from_latest [of DEFAULT_RISK_CONFIG 0 ?vs]
  have "\<exists>l. mostRecent (inWindow 0 (channelOf (flag ?d)) ?vs) = Some l \<and>
         readingValue l = Some (flag_value ?d) \<and>
         severity ?d = severityTier (flag ?d) (flag_value ?d)"
    by blast
  then have s: "severityTier GLUCOSE_LOW 120 = SevLow"
    by (auto simp del: severityTier.simps)
  have m: "mostRecent (inWindow 0 Glucose ?vs) =
     Some \<lparr> type = Glucose, systolic = None, diastolic = None,
            numericValue = Some 120, recordedAt = 0 \<rparr>"
    by code_simp
  from e m s show ?thesis by (simp del: severityTier.simps)
qed

subsection \<open>Blood-pressure records with missing fields\<close>

lemma not_pressure_flag:
  "\<forall>d \<in> set (glucoseBlock cfg b). \<not> isPressureFlag d"
  "\<forall>d \<in> set (heartRateBlock cfg b). \<not> isPressureFlag d"
  "\<forall>d \<in> set (temperatureBlock cfg b). \<not> isPressureFlag d"
  "\<forall>d \<in> set (oxygenBlock cfg b). \<not> isPressureFlag d"
proof -
  have "\<not> isPressureFlag d" if "d \<in> set (glucoseBlock cfg b)" for d
    using glucoseBlock_detail [OF that] by (auto simp: isPressureFlag_def)
  then show "\<forall>d \<in> set (glucoseBlock cfg b). \<not> isPressureFlag d" by blast
  have "\<not> isPressureFlag d" if "d \<in> set (heartRateBlock cfg b)" for d
    using heartRateBlock_detail [OF that] by (auto simp: isPressureFlag_def)
  then show "\<forall>d \<in> set (heartRateBlock cfg b). \<not> isPressureFlag d" by blast
  have "\<not> isPressureFlag d" if "d \<in> set (temperatureBlock cfg b)" for d
    using temperatureBlock_detail [OF that] by (auto simp: isPressureFlag_def)
  then show "\<forall>d \<in> set (temperatureBlock cfg b). \<not> isPressureFlag d" by blast
  have "\<not> isPressureFlag d" if "d \<in> set (oxygenBlock cfg b)" for d
    using oxygenBlock_detail [OF that] by (auto simp: isPressureFlag_def)
  then show "\<forall>d \<in> set (oxygenBlock cfg b). \<not> isPressureFlag d" by blast
qed

lemma all_pressure_flag: "\<forall>d \<in> set (pressureBlock cfg b). isPressureFlag d"
proof
  fix d
  assume "d \<in> set (pressureBlock cfg b)"
  from pressureBlock_detail [OF this] show "isPressureFlag d"
    by (simp add: isPressureFlag_def)
qed

lemma filter_none: "\<forall>x \<in> set xs. \<not> P x \<Longrightarrow> filter P xs = []"
  by (induction xs) auto

lemma filter_all: "\<forall>x \<in> set xs. P x \<Longrightarrow> filter P xs = xs"
  by (induction xs) auto

lemma pressureDetails_eq:
  "pressureDetails (analyzeVitals cfg now vs) =
   pressureBlock cfg (groupVitalsByType
     (filter (\<lambda>v. daysAgo now 7 \<le> recordedAt v) vs) Blood_pressure)"
  by (simp only: pressureDetails_def flagDetails_analyzeVitals Let_def filter_append
        filter_none [OF not_pressure_flag(1)] filter_none [OF not_pressure_flag(2)]
        filter_none [OF not_pressure_flag(3)] filter_none [OF not_pressure_flag(4)]
        filter_all [OF all_pressure_flag] append_Nil2)

lemma pressureBlock_cong:
  assumes "latestOf b = latestOf b'"
    and "length (filter (meetsPressureHigh cfg) (readingsOf b)) =
         length (filter (meetsPressureHigh cfg) (readingsOf b'))"
    and "length (filter (meetsPressureLow cfg) (readingsOf b)) =
         length (filter (meetsPressureLow cfg) (readingsOf b'))"
  shows "pressureBlock cfg b = pressureBlock cfg b'"
proof (cases "latestOf b")
  case None
  with assms(1) show ?thesis by (simp add: pressureBlock_None)
next
  case (Some l)
  with assms(1) have l': "latestOf b' = Some l" by simp
  show ?thesis
  proof (cases "wellFormedPressure l")
    case False
    with Some l' show ?thesis by (simp add: pressureBlock_malformed)
  next
    case True
    then obtain s dia where sd: "systolic l = Some s" "diastolic l = Some dia"
      by (auto simp: wellFormedPressure_def)
    show ?thesis
      unfolding pressureBlock_Some [OF Some sd] pressureBlock_Some [OF l' sd]
      by (simp only: assms(2,3))
  qed
qed

lemma mostRecent_filter:
  assumes "mostRecent xs = Some l" and "P l"
  shows "mostRecent (filter P xs) = Some l"
proof -
  from assms(1) obtain rest where s: "sortByRecency xs = l # rest"
    by (auto simp: mostRecent_sortByRecency split: list.splits)
  have "sortByRecency (filter P xs) = filter P (sortByRecency xs)"
    by (simp add: sortByRecency_def filter_sort)
  with s assms(2) have "sortByRecency (filter P xs) = l # filter P rest" by simp
  then show ?thesis by (simp add: mostRecent_sortByRecency)
qed

lemma inWindow_withoutEmptyPressure:
  "inWindow now Blood_pressure (withoutEmptyPressure vs) =
   filter (\<lambda>v. \<not> lacksBothPressureFields v) (inWindow now Blood_pressure vs)"
  unfolding inWindow_def withoutEmptyPressure_def filter_filter
  by (rule filter_cong) auto

lemma countMeeting_without:
  assumes "\<And>v. P v \<Longrightarrow> \<not> lacksBothPressureFields v"
  shows "countMeeting P (filter (\<lambda>v. \<not> lacksBothPressureFields v) xs) = countMeeting P xs"
proof -
  have "\<And>v. (\<not> lacksBothPressureFields v \<and> P v) = P v" using assms by blast
  then show ?thesis by (simp add: countMeeting_def)
qed

lemma meets_not_lacking:
  "meetsPressureHigh cfg v \<Longrightarrow> \<not> lacksBothPressureFields v"
  "meetsPressureLow cfg v \<Longrightarrow> \<not> lacksBothPressureFields v"
  by (auto simp: meetsPressureHigh_def meetsPressureLow_def lacksBothPressureFields_def
        ge_num_def le_num_def)

lemma pressureDetails_malformed_latest:
  assumes "\<not> latestPressureWellFormed now vs"
  shows "pressureDetails (analyzeVitals cfg now vs) = []"
proof (cases "mostRecent (inWindow now Blood_pressure vs)")
  case None
  then have "latestOf (groupVitalsByType
      (filter (\<lambda>v. daysAgo now 7 \<le> recordedAt v) vs) Blood_pressure) = None"
    by (simp only: bucket_latest)
  from pressureBlock_None [OF this] show ?thesis
    by (simp only: pressureDetails_eq)
next
  case (Some l)
  with assms have m: "\<not> wellFormedPressure l"
    by (simp add: latestPressureWellFormed_def)
  from Some have "latestOf (groupVitalsByType
      (filter (\<lambda>v. daysAgo now 7 \<le> recordedAt v) vs) Blood_pressure) = Some l"
    by (simp only: bucket_latest)
  from pressureBlock_malformed [OF this m] show ?thesis
    by (simp only: pressureDetails_eq)
qed

lemma pressureDetails_without_empty:
  assumes "case mostRecent (inWindow now Blood_pressure vs) of None \<Rightarrow> True
           | Some l \<Rightarrow> \<not> lacksBothPressureFields l"
  shows "pressureDetails (analyzeVitals cfg now vs) =
         pressureDetails (analyzeVitals cfg now (withoutEmptyPressure vs))"
proof -
  have latest: "mostRecent (inWindow now Blood_pressure vs) =
                mostRecent (inWindow now Blood_pressure (withoutEmptyPressure vs))"
  proof (cases "mostRecent (inWindow now Blood_pressure vs)")
    case None
    then have "inWindow now Blood_pressure vs = []" by (simp add: mostRecent_None_iff)
    then show ?thesis by (simp add: inWindow_withoutEmptyPressure)
  next
    case (Some l)
    with assms have "\<not> lacksBothPressureFields l" by simp
    from mostRecent_filter [OF Some, of "\<lambda>v. \<not> lacksBothPressureFields v", OF this] Some
    show ?thesis by (simp add: inWindow_withoutEmptyPressure)
  qed
  have high: "countMeeting (meetsPressureHigh cfg) (inWindow now Blood_pressure vs) =
              countMeeting (meetsPressureHigh cfg)
                (inWindow now Blood_pressure (withoutEmptyPressure vs))"
    by (simp only: inWindow_withoutEmptyPressure countMeeting_without [OF meets_not_lacking(1)])
  have low: "countMeeting (meetsPressureLow cfg) (inWindow now Blood_pressure vs) =
             countMeeting (meetsPressureLow cfg)
               (inWindow now Blood_pressure (withoutEmptyPressure vs))"
    by (simp only: inWindow_withoutEmptyPressure countMeeting_without [OF meets_not_lacking(2)])
  show ?thesis
    unfolding pressureDetails_eq
  proof (rule pressureBlock_cong)
    show "latestOf (groupVitalsByType (filter (\<lambda>v. daysAgo now 7 \<le> recordedAt v) vs)
            Blood_pressure) =
          latestOf (groupVitalsByType
            (filter (\<lambda>v. daysAgo now 7 \<le> recordedAt v) (withoutEmptyPressure vs))
            Blood_pressure)"
      unfolding bucket_latest by (rule latest)
    show "length (filter (meetsPressureHigh cfg) (readingsOf (groupVitalsByType
            (filter (\<lambda>v. daysAgo now 7 \<le> recordedAt v) vs) Blood_pressure))) =
          length (filter (meetsPressureHigh cfg) (readingsOf (groupVitalsByType
            (filter (\<lambda>v. daysAgo now 7 \<le> recordedAt v) (withoutEmptyPressure vs))
            Blood_pressure)))"
      unfolding bucket_count by (rule high)
    show "length (filter (meetsPressureLow cfg) (readingsOf (groupVitalsByType
            (filter (\<lambda>v. daysAgo now 7 \<le> recordedAt v) vs) Blood_pressure))) =
          length (filter (meetsPressureLow cfg) (readingsOf (groupVitalsByType
            (filter (\<lambda>v. daysAgo now 7 \<le> recordedAt v) (withoutEmptyPressure vs))
            Blood_pressure)))"
      unfolding bucket_count by (rule low)
  qed
qed

text \<open>
  Claim C4, as stated, says that the pressure flags are those computed from the
  well-formed in-window blood-pressure records alone, wherever the malformed record
  stands. Below, two well-formed readings 150/95 and 160/100 are followed by a more
  recent record without diastolic value. The well-formed records alone give a
  PRESSURE_HIGH detail; the whole list gives no pressure flag.
\<close>

theorem malformed_latest_suppresses_counterexample:
  "pressureDetails (analyzeVitals DEFAULT_RISK_CONFIG 0
     [\<lparr> type = Blood_pressure, systolic = Some 150, diastolic = Some 95,
        numericValue = None, recordedAt = - 7200000 \<rparr>,
      \<lparr> type = Blood_pressure, systolic = Some 160, diastolic = Some 100,
        numericValue = None, recordedAt = - 3600000 \<rparr>,
      \<lparr> type = Blood_pressure, systolic = Some 120, diastolic = None,
        numericValue = None, recordedAt = 0 \<rparr>]) = [] \<and>
   pressureDetails (analyzeVitals DEFAULT_RISK_CONFIG 0 (wellFormedOnly
     [\<lparr> type = Blood_pressure, systolic = Some 150, diastolic = Some 95,
        numericValue = None, recordedAt = - 7200000 \<rparr>,
      \<lparr> type = Blood_pressure, systolic = Some 160, diastolic = Some 100,
        numericValue = None, recordedAt = - 3600000 \<rparr>,
      \<lparr> type = Blood_pressure, systolic = Some 120, diastolic = None,
        numericValue = None, recordedAt = 0 \<rparr>])) =
     [\<lparr> flag = PRESSURE_HIGH, flag_value = 160, threshold = 140, severity = SevHigh \<rparr>]"
  by code_simp

text \<open>
  A record that misses one of the two fields and is not the most recent one is not
  skipped either: it is counted through the field it has. Here the older record has a
  systolic value of 150 and no diastolic value; with the latest reading 145/92 it makes
  two readings at the high threshold, and PRESSURE_HIGH is emitted, which the well-formed
  records alone would not give.
\<close>

lemma half_malformed_record_is_counted:
  "pressureDetails (analyzeVitals DEFAULT_RISK_CONFIG 0
     [\<lparr> type = Blood_pressure, systolic = Some 150, diastolic = None,
        numericValue = None, recordedAt = - 3600000 \<rparr>,
      \<lparr> type = Blood_pressure, systolic = Some 145, diastolic = Some 92,
        numericValue = None, recordedAt = 0 \<rparr>]) =
     [\<lparr> flag = PRESSURE_HIGH, flag_value = 145, threshold = 140, severity = SevLow \<rparr>] \<and>
   pressureDetails (analyzeVitals DEFAULT_RISK_CONFIG 0 (wellFormedOnly
     [\<lparr> type = Blood_pressure, systolic = Some 150, diastolic = None,
        numericValue = None, recordedAt = - 3600000 \<rparr>,
      \<lparr> type = Blood_pressure, systolic = Some 145, diastolic = Some 92,
        numericValue = None, recordedAt = 0 \<rparr>])) = []"
  by code_simp

text \<open>
  Claim C4, amended. The analysis never aborts (\<open>analyzeVitals\<close> is a total function).
  When the most recent in-window blood-pressure record misses systolic or diastolic (or
  there is no in-window blood-pressure record), no pressure flag is emitted, whatever the
  earlier readings are. Otherwise a missing field meets no threshold, so that a
  blood-pressure record missing both fields is skipped: the pressure flags are those
  computed from the input without such records, provided the most recent in-window
  blood-pressure record is not one of them.
\<close>

theorem malformed_pressure_records:
  "(\<not> latestPressureWellFormed now vs \<longrightarrow>
      pressureDetails (analyzeVitals cfg now vs) = []) \<and>
   ((case mostRecent (inWindow now Blood_pressure vs) of None \<Rightarrow> True
     | Some l \<Rightarrow> \<not> lacksBothPressureFields l) \<longrightarrow>
      pressureDetails (analyzeVitals cfg now vs) =
      pressureDetails (analyzeVitals cfg now (withoutEmptyPressure vs)))"
  using pressureDetails_malformed_latest [of now vs cfg]
    pressureDetails_without_empty [of now vs cfg]
  by blast

text \<open>
  The witness: a record without any pressure value between two readings 150/95 and
  160/100 (the latter the most recent) is skipped and PRESSURE_HIGH is emitted with the
  value 160; with a most recent record that has no diastolic value the pressure channel
  gives no flag.
\<close>

theorem malformed_pressure_records_witness:
  "pressureDetails (analyzeVitals DEFAULT_RISK_CONFIG 0
     [\<lparr> type = Blood_pressure, systolic = Some 150, diastolic = Some 95,
        numericValue = None, recordedAt = - 7200000 \<rparr>,
      \<lparr> type = Blood_pressure, systolic = None, diastolic = None,
        numericValue = None, recordedAt = - 3600000 \<rparr>,
      \<lparr> type = Blood_pressure, systolic = Some 160, diastolic = Some 100,
        numericValue = None, recordedAt = 0 \<rparr>]) =
   pressureDetails (analyzeVitals DEFAULT_RISK_CONFIG 0
     [\<lparr> type = Blood_pressure, systolic = Some 150, diastolic = Some 95,
        numericValue = None, recordedAt = - 7200000 \<rparr>,
      \<lparr> type = Blood_pressure, systolic = Some 160, diastolic = Some 100,
        numericValue = None, recordedAt = 0 \<rparr>]) \<and>
   pressureDetails (analyzeVitals DEFAULT_RISK_CONFIG 0
     [\<lparr> type = Blood_pressure, systolic = Some 150, diastolic = Some 95,
        numericValue = None, recordedAt = - 7200000 \<rparr>,
      \<lparr> type = Blood_pressure, systolic = Some 160, diastolic = Some 100,
        numericValue = None, recordedAt = 0 \<rparr>]) =
     [\<lparr> flag = PRESSURE_HIGH, flag_value = 160, threshold = 140, severity = SevHigh \<rparr>] \<and>
   pressureDetails (analyzeVitals DEFAULT_RISK_CONFIG 0
     [\<lparr> type = Blood_pressure, systolic = Some 150, diastolic = Some 95,
        numericValue = None, recordedAt = - 7200000 \<rparr>,
      \<lparr> type = Blood_pressure, systolic = Some 160, diastolic = Some 100,
        numericValue = None, recordedAt = - 3600000 \<rparr>,
      \<lparr> type = Blood_pressure, systolic = Some 120, diastolic = None,
        numericValue = None, recordedAt = 0 \<rparr>]) = []"
proof -
  let ?a = "\<lparr> type = Blood_pressure, systolic = Some 150, diastolic = Some 95,
        numericValue = None, recordedAt = - 7200000 \<rparr>"
  let ?e = "\<lparr> type = Blood_pressure, systolic = None, diastolic = None,
        numericValue = None, recordedAt = - 3600000 \<rparr>"
  let ?b = "\<lparr> type = Blood_pressure, systolic = Some 160, diastolic = Some 100,
        numericValue = None, recordedAt = 0 \<rparr>"
  let ?b' = "\<lparr> type = Blood_pressure, systolic = Some 160, diastolic = Some 100,
        numericValue = None, recordedAt = - 3600000 \<rparr>"
  let ?m = "\<lparr> type = Blood_pressure, systolic = Some 120, diastolic = None,
        numericValue = None, recordedAt = 0 \<rparr>"
  have h1: "case mostRecent (inWindow 0 Blood_pressure [?a, ?e, ?b]) of None \<Rightarrow> True
            | Some l \<Rightarrow> \<not> lacksBothPressureFields l"
    by code_simp
  have w: "withoutEmptyPressure [?a, ?e, ?b] = [?a, ?b]"
    by code_simp
  have v: "pressureDetails (analyzeVitals DEFAULT_RISK_CONFIG 0 [?a, ?b]) =
     [\<lparr> flag = PRESSURE_HIGH, flag_value = 160, threshold = 140, severity = SevHigh \<rparr>]"
    by code_simp
  have h2: "\<not> latestPressureWellFormed 0 [?a, ?b', ?m]"
    by code_simp
  show ?thesis
    using malformed_pressure_records [of 0 "[?a, ?e, ?b]" DEFAULT_RISK_CONFIG]
      malformed_pressure_records [of 0 "[?a, ?b', ?m]" DEFAULT_RISK_CONFIG]
      h1 h2 w v
    by simp
qed

subsection \<open>The contribution of a vital flag to the risk score\<close>

lemma vitalStep_eq:
  "\<exists>r. vitalStep cfg acc d = (fst acc + flagContribution cfg d, snd acc @ [r])"
  by (cases acc; cases "flag d")
     (simp_all add: vitalStep_def flagContribution_def severityMultiplier_def)

lemma foldl_vitalStep:
  "fst (foldl (vitalStep cfg) acc ds) = fst acc + sum_list (map (flagContribution cfg) ds) \<and>
   length (snd (foldl (vitalStep cfg) acc ds)) = length (snd acc) + length ds"
proof (induction ds arbitrary: acc)
  case Nil
  show ?case by simp
next
  case (Cons d ds)
  obtain r where r: "vitalStep cfg acc d = (fst acc + flagContribution cfg d, snd acc @ [r])"
    using vitalStep_eq by blast
  show ?case
    using Cons.IH [of "vitalStep cfg acc d"] by (simp add: r add.assoc)
qed

text \<open>
  Claim C1, as stated, gives a PRESSURE_LOW flag of severity high the contribution
  \<open>pressure.weight * 1.5\<close>, which is 22.5 under the default weight of 15. The loop adds
  15 for it, and the risk score of a patient with good adherence, this one flag and no
  exam is 15.
\<close>

theorem pressure_low_high_severity_counterexample:
  "fst (foldl (vitalStep DEFAULT_RISK_CONFIG) (0, [])
         [\<lparr> flag = PRESSURE_LOW, flag_value = 78, threshold = 90, severity = SevHigh \<rparr>]) = 15 \<and>
   channelWeight DEFAULT_RISK_CONFIG PRESSURE_LOW *
     claimedMultiplier \<lparr> flag = PRESSURE_LOW, flag_value = 78, threshold = 90,
                         severity = SevHigh \<rparr> = 45 / 2 \<and>
   risk_value (calculateRiskScore DEFAULT_RISK_CONFIG
     \<lparr> days = 30, totalReminders = 0, taken = 0, late = 0, missed = 0,
       adherenceRate = 100, adherenceStatus = Good \<rparr>
     \<lparr> lastMeasurements =
         \<lparr> lm_systolic = Some 78, lm_diastolic = Some 50, lm_heartRate = None,
           lm_bloodGlucose = None, lm_temperature = None, lm_oxygenSaturation = None \<rparr>,
       flags = [PRESSURE_LOW],
       flagDetails =
         [\<lparr> flag = PRESSURE_LOW, flag_value = 78, threshold = 90, severity = SevHigh \<rparr>] \<rparr>
     \<lparr> recentExams = 0, pendingExams = 0, overdueExams = 0, completedExams = 0 \<rparr>) = 15"
  by code_simp

text \<open>
  Claim C1, amended. In \<open>calculateRiskScore\<close> the loop over the flag details adds, for
  every flag detail, the configured weight of the channel of the flag times a
  multiplier. The multiplier is 1.5 for GLUCOSE_LOW whatever the severity; it is 1.5 for
  PRESSURE_HIGH, GLUCOSE_HIGH and OXYGEN_LOW when the severity is high and 1 otherwise;
  it is 1 for PRESSURE_LOW and for the heart-rate and temperature flags whatever the
  severity. Each flag detail also appends one reason.
\<close>

theorem vital_flag_contributions:
  "fst (foldl (vitalStep cfg) (score, reasonList) details) =
     score + sum_list (map (flagContribution cfg) details) \<and>
   length (snd (foldl (vitalStep cfg) (score, reasonList) details)) =
     length reasonList + length details"
  using foldl_vitalStep [of cfg "(score, reasonList)" details] by simp

text \<open>
  The witness: under the default weights a PRESSURE_HIGH of severity high adds 22.5, a
  PRESSURE_LOW of severity high 15, a GLUCOSE_LOW of severity low 22.5, a HEART_RATE_HIGH
  of severity high 10 and an OXYGEN_LOW of severity medium 20.
\<close>

theorem vital_flag_contributions_witness:
  "fst (foldl (vitalStep DEFAULT_RISK_CONFIG) (0, [])
     [\<lparr> flag = PRESSURE_HIGH, flag_value = 165, threshold = 140, severity = SevHigh \<rparr>,
      \<lparr> flag = PRESSURE_LOW, flag_value = 78, threshold = 90, severity = SevHigh \<rparr>,
      \<lparr> flag = GLUCOSE_LOW, flag_value = 65, threshold = 70, severity = SevLow \<rparr>,
      \<lparr> flag = HEART_RATE_HIGH, flag_value = 125, threshold = 100, severity = SevHigh \<rparr>,
      \<lparr> flag = OXYGEN_LOW, flag_value = 90, threshold = 92, severity = SevMedium \<rparr>]) =
   45 / 2 + 15 + 45 / 2 + 10 + 20"
proof -
  let ?ds = "[\<lparr> flag = PRESSURE_HIGH, flag_value = 165, threshold = 140, severity = SevHigh \<rparr>,
      \<lparr> flag = PRESSURE_LOW, flag_value = 78, threshold = 90, severity = SevHigh \<rparr>,
      \<lparr> flag = GLUCOSE_LOW, flag_value = 65, threshold = 70, severity = SevLow \<rparr>,
      \<lparr> flag = HEART_RATE_HIGH, flag_value = 125, threshold = 100, severity = SevHigh \<rparr>,
      \<lparr> flag = OXYGEN_LOW, flag_value = 90, threshold = 92, severity = SevMedium \<rparr>]"
  have "(0 :: rat) + sum_list (map (flagContribution DEFAULT_RISK_CONFIG) ?ds) =
        45 / 2 + 15 + 45 / 2 + 10 + 20"
    by code_simp
  with vital_flag_contributions [of DEFAULT_RISK_CONFIG 0 "[]" ?ds] show ?thesis
    by simp
qed

subsection \<open>Bounds, level and reasons of the risk score\<close>

lemma calculateRiskScore_fields:
  "risk_value (calculateRiskScore cfg adh vit ex) =
     Math_round (clampedScore cfg adh vit ex * 100) / 100"
  "level (calculateRiskScore cfg adh vit ex) = levelFor cfg (clampedScore cfg adh vit ex)"
  "reasons (calculateRiskScore cfg adh vit ex) = snd (accumulateScore cfg adh vit ex)"
  by (simp_all add: calculateRiskScore_def clampedScore_def levelFor_def Let_def
        split: prod.split)

lemma clampedScore_bounds:
  "0 \<le> clampedScore cfg adh vit ex" "clampedScore cfg adh vit ex \<le> 100"
  by (simp_all add: clampedScore_def)

lemma Math_round_bounds:
  assumes "0 \<le> s" "s \<le> 100"
  shows "0 \<le> Math_round (s * 100) / 100" "Math_round (s * 100) / 100 \<le> 100"
proof -
  from assms(1) have "0 \<le> \<lfloor>s * 100 + 1 / 2\<rfloor>" by simp
  then show "0 \<le> Math_round (s * 100) / 100" by (simp add: Math_round_def)
  from assms(2) have "s * 100 + 1 / 2 < of_int 10000 + 1" by simp
  then have "\<lfloor>s * 100 + 1 / 2\<rfloor> \<le> 10000" by (simp only: floor_le_iff)
  then have "(of_int \<lfloor>s * 100 + 1 / 2\<rfloor> :: rat) \<le> of_int 10000" by (simp only: of_int_le_iff)
  then show "Math_round (s * 100) / 100 \<le> 100" by (simp add: Math_round_def)
qed

lemma Math_round_zero: "Math_round (0 * 100) / 100 = 0"
proof -
  have "\<lfloor>(1 / 2 :: rat)\<rfloor> = 0" by linarith
  then show ?thesis by (simp add: Math_round_def)
qed

lemma Math_round_two_decimals:
  assumes "hasTwoDecimals s"
  shows "Math_round (s * 100) / 100 = s"
proof -
  from assms have e: "s * 100 = of_int \<lfloor>s * 100\<rfloor>"
    unfolding hasTwoDecimals_def by (rule sym)
  have "\<lfloor>(of_int \<lfloor>s * 100\<rfloor> :: rat) + 1 / 2\<rfloor> = \<lfloor>s * 100\<rfloor>" by linarith
  with e have "Math_round (s * 100) = s * 100" by (simp add: Math_round_def)
  then show ?thesis by simp
qed

lemma adherenceStep_no_reason:
  "snd (adherenceStep cfg adh (0, [])) = [] \<Longrightarrow> adherenceStep cfg adh (0, []) = (0, [])"
  by (simp add: adherenceStep_def split: if_splits)

lemma examsStep_no_reason:
  "snd (examsStep cfg ex acc) = [] \<Longrightarrow> examsStep cfg ex acc = acc"
  by (cases acc) (simp add: examsStep_def Let_def split: if_splits)

lemma no_reason_no_score:
  assumes "snd (accumulateScore cfg adh vit ex) = []"
  shows "fst (accumulateScore cfg adh vit ex) = 0"
proof -
  let ?a = "adherenceStep cfg adh (0, [])"
  let ?l = "foldl (vitalStep cfg) ?a (flagDetails vit)"
  from assms have e: "examsStep cfg ex ?l = ?l"
    unfolding accumulateScore_def by (rule examsStep_no_reason)
  with assms have "snd ?l = []" by (simp add: accumulateScore_def)
  with foldl_vitalStep [of cfg ?a "flagDetails vit"]
  have d: "flagDetails vit = []" and "snd ?a = []" by simp_all
  from adherenceStep_no_reason [OF this(2)] d e show ?thesis
    by (simp add: accumulateScore_def)
qed

lemma positive_value_has_reason:
  assumes "0 < risk_value (calculateRiskScore cfg adh vit ex)"
  shows "1 \<le> length (reasons (calculateRiskScore cfg adh vit ex))"
proof (rule ccontr)
  assume "\<not> 1 \<le> length (reasons (calculateRiskScore cfg adh vit ex))"
  then have "snd (accumulateScore cfg adh vit ex) = []"
    by (cases "snd (accumulateScore cfg adh vit ex)") (simp_all add: calculateRiskScore_fields)
  from no_reason_no_score [OF this] have "clampedScore cfg adh vit ex = 0"
    by (simp add: clampedScore_def)
  then have "risk_value (calculateRiskScore cfg adh vit ex) = 0"
    using Math_round_zero by (simp add: calculateRiskScore_fields)
  with assms show False by simp
qed

text \<open>Scores built from whole-number weights have at most one decimal.\<close>

lemma flagContribution_Ints:
  assumes "\<forall>w \<in> set (weightsOf cfg). w \<in> \<int>"
  shows "flagContribution cfg d * 100 \<in> \<int>"
proof -
  from assms have w: "channelWeight cfg (flag d) \<in> \<int>"
    by (cases "flag d") (simp_all add: weightsOf_def)
  have "severityMultiplier d * 100 \<in> \<int>" by (simp add: severityMultiplier_def)
  with w have "channelWeight cfg (flag d) * (severityMultiplier d * 100) \<in> \<int>"
    by (rule Ints_mult)
  then show ?thesis by (simp add: flagContribution_def mult.assoc)
qed

lemma sum_contributions_Ints:
  assumes "\<forall>w \<in> set (weightsOf cfg). w \<in> \<int>"
  shows "sum_list (map (flagContribution cfg) ds) * 100 \<in> \<int>"
proof (induction ds)
  case Nil
  show ?case by simp
next
  case (Cons d ds)
  from flagContribution_Ints [OF assms, of d] Cons.IH
  have "flagContribution cfg d * 100 + sum_list (map (flagContribution cfg) ds) * 100 \<in> \<int>"
    by (rule Ints_add)
  then show ?case by (simp add: distrib_right)
qed

lemma accumulateScore_Ints:
  assumes "\<forall>w \<in> set (weightsOf cfg). w \<in> \<int>"
  shows "fst (accumulateScore cfg adh vit ex) * 100 \<in> \<int>"
proof -
  let ?a = "adherenceStep cfg adh (0, [])"
  let ?l = "foldl (vitalStep cfg) ?a (flagDetails vit)"
  from assms have ws: "badWeight (adherence cfg) \<in> \<int>" "mediumWeight (adherence cfg) \<in> \<int>"
    "overdueWeight (exams cfg) \<in> \<int>" "pendingWeight (exams cfg) \<in> \<int>"
    by (simp_all add: weightsOf_def)
  have a: "fst ?a * 100 \<in> \<int>"
    using ws(1,2) by (simp add: adherenceStep_def)
  have l: "fst ?l * 100 \<in> \<int>"
  proof -
    have "fst ?a * 100 + sum_list (map (flagContribution cfg) (flagDetails vit)) * 100 \<in> \<int>"
      using a sum_contributions_Ints [OF assms] by (rule Ints_add)
    then show ?thesis
      using foldl_vitalStep [of cfg ?a "flagDetails vit"] by (simp add: distrib_right)
  qed
  have o: "overdueWeight (exams cfg) * of_nat (overdueExams ex) * 100 \<in> \<int>"
    using ws(3) by simp
  have p: "pendingWeight (exams cfg) * 100 \<in> \<int>"
    using ws(4) by simp
  obtain s rs where sr: "?l = (s, rs)" by (cases ?l)
  with l have s: "s * 100 \<in> \<int>" by simp
  have so: "(s + overdueWeight (exams cfg) * of_nat (overdueExams ex)) * 100 \<in> \<int>"
    using Ints_add [OF s o] by (simp add: distrib_right)
  have sp: "(s + pendingWeight (exams cfg)) * 100 \<in> \<int>"
    using Ints_add [OF s p] by (simp add: distrib_right)
  have sop: "(s + overdueWeight (exams cfg) * of_nat (overdueExams ex) +
              pendingWeight (exams cfg)) * 100 \<in> \<int>"
    using Ints_add [OF so p] by (simp add: distrib_right)
  show ?thesis
    using s so sp sop by (simp add: accumulateScore_def examsStep_def sr Let_def)
qed

lemma Ints_hasTwoDecimals: "x * 100 \<in> \<int> \<Longrightarrow> hasTwoDecimals x"
  by (auto simp: hasTwoDecimals_def elim: Ints_cases)

lemma clampedScore_two_decimals:
  assumes "\<forall>w \<in> set (weightsOf cfg). w \<in> \<int>"
  shows "hasTwoDecimals (clampedScore cfg adh vit ex)"
proof -
  have "clampedScore cfg adh vit ex * 100 \<in> \<int>"
    using accumulateScore_Ints [OF assms, of adh vit ex]
    by (simp add: clampedScore_def min_def max_def)
  then show ?thesis by (rule Ints_hasTwoDecimals)
qed

text \<open>
  Claim C8, as stated, makes the level the mapping of the returned value. The code
  takes the level from the score before it is rounded to two decimals. With a weight of
  29.004 for bad adherence (all else as in the default configuration) a patient with bad
  adherence, no flag and no exam has the score 29.004: the value returned is 29, which is
  not above \<open>lowMax = 29\<close>, and the level returned is moderate.
\<close>

theorem level_of_rounded_value_counterexample:
  "risk_value (calculateRiskScore
     (DEFAULT_RISK_CONFIG\<lparr> adherence :=
        \<lparr> goodThreshold = 90, mediumThreshold = 75, badWeight = 29004 / 1000,
          mediumWeight = 10 \<rparr> \<rparr>)
     \<lparr> days = 30, totalReminders = 10, taken = 5, late = 0, missed = 5,
       adherenceRate = 50, adherenceStatus = Bad \<rparr>
     \<lparr> lastMeasurements =
         \<lparr> lm_systolic = None, lm_diastolic = None, lm_heartRate = None,
           lm_bloodGlucose = None, lm_temperature = None, lm_oxygenSaturation = None \<rparr>,
       flags = [], flagDetails = [] \<rparr>
     \<lparr> recentExams = 0, pendingExams = 0, overdueExams = 0, completedExams = 0 \<rparr>) = 29 \<and>
   level (calculateRiskScore
     (DEFAULT_RISK_CONFIG\<lparr> adherence :=
        \<lparr> goodThreshold = 90, mediumThreshold = 75, badWeight = 29004 / 1000,
          mediumWeight = 10 \<rparr> \<rparr>)
     \<lparr> days = 30, totalReminders = 10, taken = 5, late = 0, missed = 5,
       adherenceRate = 50, adherenceStatus = Bad \<rparr>
     \<lparr> lastMeasurements =
         \<lparr> lm_systolic = None, lm_diastolic = None, lm_heartRate = None,
           lm_bloodGlucose = None, lm_temperature = None, lm_oxygenSaturation = None \<rparr>,
       flags = [], flagDetails = [] \<rparr>
     \<lparr> recentExams = 0, pendingExams = 0, overdueExams = 0, completedExams = 0 \<rparr>) =
     LevelModerate \<and>
   levelFor
     (DEFAULT_RISK_CONFIG\<lparr> adherence :=
        \<lparr> goodThreshold = 90, mediumThreshold = 75, badWeight = 29004 / 1000,
          mediumWeight = 10 \<rparr> \<rparr>) 29 = LevelLow"
  by code_simp

text \<open>
  Claim C8, amended. For every configuration and every combination of adherence, vitals
  and exams analyses, the returned value lies between 0 and 100 and is the clamped score
  rounded to two decimals; the level is the mapping (at most \<open>lowMax\<close>: low; at most
  \<open>moderateMax\<close>: moderate; else high) of the clamped score before rounding, and it is
  the same mapping of the returned value whenever the clamped score has at most two
  decimals, which is so whenever all configured weights are whole numbers, as the default
  weights are; and there is at least one reason whenever the value is positive.
\<close>

theorem risk_score_invariants:
  "0 \<le> risk_value (calculateRiskScore cfg adh vit ex) \<and>
   risk_value (calculateRiskScore cfg adh vit ex) \<le> 100 \<and>
   risk_value (calculateRiskScore cfg adh vit ex) =
     Math_round (clampedScore cfg adh vit ex * 100) / 100 \<and>
   level (calculateRiskScore cfg adh vit ex) = levelFor cfg (clampedScore cfg adh vit ex) \<and>
   (hasTwoDecimals (clampedScore cfg adh vit ex) \<longrightarrow>
      level (calculateRiskScore cfg adh vit ex) =
      levelFor cfg (risk_value (calculateRiskScore cfg adh vit ex))) \<and>
   ((\<forall>w \<in> set (weightsOf cfg). w \<in> \<int>) \<longrightarrow>
      level (calculateRiskScore cfg adh vit ex) =
      levelFor cfg (risk_value (calculateRiskScore cfg adh vit ex))) \<and>
   (0 < risk_value (calculateRiskScore cfg adh vit ex) \<longrightarrow>
      1 \<le> length (reasons (calculateRiskScore cfg adh vit ex)))"
proof -
  have two: "level (calculateRiskScore cfg adh vit ex) =
             levelFor cfg (risk_value (calculateRiskScore cfg adh vit ex))"
    if "hasTwoDecimals (clampedScore cfg adh vit ex)"
    using Math_round_two_decimals [OF that] by (simp add: calculateRiskScore_fields)
  show ?thesis
    using Math_round_bounds [OF clampedScore_bounds, of cfg adh vit ex]
      two clampedScore_two_decimals [of cfg adh vit ex]
      positive_value_has_reason [of cfg adh vit ex]
    by (simp add: calculateRiskScore_fields(1,2))
qed

text \<open>
  The witness is the high-risk patient of the test suite under the default
  configuration: bad adherence (25), PRESSURE_HIGH and GLUCOSE_HIGH of severity high (22.5
  each), OXYGEN_LOW of severity high (30) and two overdue exams (30) add up to 130, which
  is clamped to 100; the level is high and there are five reasons.
\<close>

theorem risk_score_invariants_witness:
  "risk_value (calculateRiskScore DEFAULT_RISK_CONFIG
     \<lparr> days = 30, totalReminders = 100, taken = 60, late = 0, missed = 40,
       adherenceRate = 60, adherenceStatus = Bad \<rparr>
     \<lparr> lastMeasurements =
         \<lparr> lm_systolic = Some 165, lm_diastolic = Some 105, lm_heartRate = None,
           lm_bloodGlucose = Some 250, lm_temperature = None,
           lm_oxygenSaturation = Some 88 \<rparr>,
       flags = [PRESSURE_HIGH, GLUCOSE_HIGH, OXYGEN_LOW],
       flagDetails =
         [\<lparr> flag = PRESSURE_HIGH, flag_value = 165, threshold = 140, severity = SevHigh \<rparr>,
          \<lparr> flag = GLUCOSE_HIGH, flag_value = 250, threshold = 180, severity = SevHigh \<rparr>,
          \<lparr> flag = OXYGEN_LOW, flag_value = 88, threshold = 92, severity = SevHigh \<rparr>] \<rparr>
     \<lparr> recentExams = 2, pendingExams = 2, overdueExams = 2, completedExams = 0 \<rparr>) = 100 \<and>
   level (calculateRiskScore DEFAULT_RISK_CONFIG
     \<lparr> days = 30, totalReminders = 100, taken = 60, late = 0, missed = 40,
       adherenceRate = 60, adherenceStatus = Bad \<rparr>
     \<lparr> lastMeasurements =
         \<lparr> lm_systolic = Some 165, lm_diastolic = Some 105, lm_heartRate = None,
           lm_bloodGlucose = Some 250, lm_temperature = None,
           lm_oxygenSaturation = Some 88 \<rparr>,
       flags = [PRESSURE_HIGH, GLUCOSE_HIGH, OXYGEN_LOW],
       flagDetails =
         [\<lparr> flag = PRESSURE_HIGH, flag_value = 165, threshold = 140, severity = SevHigh \<rparr>,
          \<lparr> flag = GLUCOSE_HIGH, flag_value = 250, threshold = 180, severity = SevHigh \<rparr>,
          \<lparr> flag = OXYGEN_LOW, flag_value = 88, threshold = 92, severity = SevHigh \<rparr>] \<rparr>
     \<lparr> recentExams = 2, pendingExams = 2, overdueExams = 2, completedExams = 0 \<rparr>) =
     levelFor DEFAULT_RISK_CONFIG 100 \<and>
   levelFor DEFAULT_RISK_CONFIG 100 = LevelHigh \<and>
   1 \<le> length (reasons (calculateRiskScore DEFAULT_RISK_CONFIG
     \<lparr> days = 30, totalReminders = 100, taken = 60, late = 0, missed = 40,
       adherenceRate = 60, adherenceStatus = Bad \<rparr>
     \<lparr> lastMeasurements =
         \<lparr> lm_systolic = Some 165, lm_diastolic = Some 105, lm_heartRate = None,
           lm_bloodGlucose = Some 250, lm_temperature = None,
           lm_oxygenSaturation = Some 88 \<rparr>,
       flags = [PRESSURE_HIGH, GLUCOSE_HIGH, OXYGEN_LOW],
       flagDetails =
         [\<lparr> flag = PRESSURE_HIGH, flag_value = 165, threshold = 140, severity = SevHigh \<rparr>,
          \<lparr> flag = GLUCOSE_HIGH, flag_value = 250, threshold = 180, severity = SevHigh \<rparr>,
          \<lparr> flag = OXYGEN_LOW, flag_value = 88, threshold = 92, severity = SevHigh \<rparr>] \<rparr>
     \<lparr> recentExams = 2, pendingExams = 2, overdueExams = 2, completedExams = 0 \<rparr>))"
proof -
  let ?adh = "\<lparr> days = 30, totalReminders = 100, taken = 60, late = 0, missed = 40,
       adherenceRate = 60, adherenceStatus = Bad \<rparr>"
  let ?vit = "\<lparr> lastMeasurements =
         \<lparr> lm_systolic = Some 165, lm_diastolic = Some 105, lm_heartRate = None,
           lm_bloodGlucose = Some 250, lm_temperature = None,
           lm_oxygenSaturation = Some 88 \<rparr>,
       flags = [PRESSURE_HIGH, GLUCOSE_HIGH, OXYGEN_LOW],
       flagDetails =
         [\<lparr> flag = PRESSURE_HIGH, flag_value = 165, threshold = 140, severity = SevHigh \<rparr>,
          \<lparr> flag = GLUCOSE_HIGH, flag_value = 250, threshold = 180, severity = SevHigh \<rparr>,
          \<lparr> flag = OXYGEN_LOW, flag_value = 88, threshold = 92, severity = SevHigh \<rparr>] \<rparr>"
  let ?ex = "\<lparr> recentExams = 2, pendingExams = 2, overdueExams = 2, completedExams = 0 \<rparr>"
  have w: "\<forall>w \<in> set (weightsOf DEFAULT_RISK_CONFIG). w \<in> \<int>"
    by (simp add: weightsOf_def DEFAULT_RISK_CONFIG_def)
  have v: "risk_value (calculateRiskScore DEFAULT_RISK_CONFIG ?adh ?vit ?ex) = 100"
    by code_simp
  have l: "levelFor DEFAULT_RISK_CONFIG 100 = LevelHigh"
    by code_simp
  from risk_score_invariants [of DEFAULT_RISK_CONFIG ?adh ?vit ?ex] w
  have i: "level (calculateRiskScore DEFAULT_RISK_CONFIG ?adh ?vit ?ex) =
           levelFor DEFAULT_RISK_CONFIG
             (risk_value (calculateRiskScore DEFAULT_RISK_CONFIG ?adh ?vit ?ex))"
    and r: "0 < risk_value (calculateRiskScore DEFAULT_RISK_CONFIG ?adh ?vit ?ex) \<longrightarrow>
           1 \<le> length (reasons (calculateRiskScore DEFAULT_RISK_CONFIG ?adh ?vit ?ex))"
    by blast+
  from i have i': "level (calculateRiskScore DEFAULT_RISK_CONFIG ?adh ?vit ?ex) =
           levelFor DEFAULT_RISK_CONFIG 100"
    by (simp only: v)
  from r have r': "1 \<le> length (reasons (calculateRiskScore DEFAULT_RISK_CONFIG ?adh ?vit ?ex))"
    by (simp only: v simp_thms zero_less_numeral)
  from v i' l r' show ?thesis
    by (intro conjI)
qed

subsection \<open>The default recommendation\<close>

lemma rec_stable_distinct:
  "rec_stable \<noteq> rec_adherence_bad_1" "rec_stable \<noteq> rec_adherence_bad_2"
  "rec_stable \<noteq> rec_adherence_medium" "rec_stable \<noteq> rec_pressure_high_urgent"
  "rec_stable \<noteq> rec_pressure_high" "rec_stable \<noteq> rec_pressure_low"
  "rec_stable \<noteq> rec_glucose_high_1" "rec_stable \<noteq> rec_glucose_high_2"
  "rec_stable \<noteq> rec_glucose_low_urgent" "rec_stable \<noteq> rec_glucose_low"
  "rec_stable \<noteq> rec_oxygen_low" "rec_stable \<noteq> rec_overdue_exams n"
  "rec_stable \<noteq> rec_pending_exams" "rec_stable \<noteq> rec_risk_high_1"
  "rec_stable \<noteq> rec_risk_high_2" "rec_stable \<noteq> rec_risk_moderate"
  by (simp_all add: rec_stable_def rec_adherence_bad_1_def rec_adherence_bad_2_def
        rec_adherence_medium_def rec_pressure_high_urgent_def rec_pressure_high_def
        rec_pressure_low_def rec_glucose_high_1_def rec_glucose_high_2_def
        rec_glucose_low_urgent_def rec_glucose_low_def rec_oxygen_low_def
        rec_overdue_exams_def rec_pending_exams_def rec_risk_high_1_def rec_risk_high_2_def
        rec_risk_moderate_def)

lemma notin_if: "x \<notin> set a \<Longrightarrow> x \<notin> set b \<Longrightarrow> x \<notin> set (if c then a else b)"
  by simp

lemma rec_stable_not_a_rule:
  "rec_stable \<notin> set (ruleRecommendations adh vit ex riskScore)"
  unfolding ruleRecommendations_def Let_def set_append Un_iff de_Morgan_disj
  by (intro conjI notin_if) (simp_all add: rec_stable_distinct)

lemma Nil_if: "((if c then a else b) = []) = (if c then a = [] else b = [])"
  by simp

lemma no_rule_iff:
  "ruleRecommendations adh vit ex riskScore = [] \<longleftrightarrow> \<not> anyRuleFires adh vit ex riskScore"
  unfolding ruleRecommendations_def anyRuleFires_def Let_def append_is_Nil_conv Nil_if
  by (simp split del: if_split cong: if_cong add: if_bool_eq_conj) blast

text \<open>
  Claim C9. For every input \<open>generateRecommendations\<close> returns a nonempty list. The
  default message of a stable patient is in the list if and only if no rule fired (no
  adherence, flag, exam or risk-level rule); then it is the only element, and it never
  occurs more than once.
\<close>

theorem default_recommendation:
  "generateRecommendations adh vit ex riskScore \<noteq> [] \<and>
   (rec_stable \<in> set (generateRecommendations adh vit ex riskScore) \<longleftrightarrow>
      \<not> anyRuleFires adh vit ex riskScore) \<and>
   (\<not> anyRuleFires adh vit ex riskScore \<longrightarrow>
      generateRecommendations adh vit ex riskScore = [rec_stable]) \<and>
   count_list (generateRecommendations adh vit ex riskScore) rec_stable \<le> 1"
proof (cases "ruleRecommendations adh vit ex riskScore = []")
  case True
  then have "generateRecommendations adh vit ex riskScore = [rec_stable]"
    by (simp add: generateRecommendations_def)
  with True show ?thesis by (simp add: no_rule_iff)
next
  case False
  then have g: "generateRecommendations adh vit ex riskScore =
                ruleRecommendations adh vit ex riskScore"
    by (simp add: generateRecommendations_def)
  from False have f: "anyRuleFires adh vit ex riskScore"
    by (simp add: no_rule_iff)
  have n: "rec_stable \<notin> set (ruleRecommendations adh vit ex riskScore)"
    by (rule rec_stable_not_a_rule)
  then have c: "count_list (ruleRecommendations adh vit ex riskScore) rec_stable = 0"
    by simp
  have 1: "generateRecommendations adh vit ex riskScore \<noteq> []"
    using False by (simp add: g)
  have 2: "rec_stable \<in> set (generateRecommendations adh vit ex riskScore) \<longleftrightarrow>
           \<not> anyRuleFires adh vit ex riskScore"
    using n f by (simp add: g)
  have 3: "\<not> anyRuleFires adh vit ex riskScore \<longrightarrow>
           generateRecommendations adh vit ex riskScore = [rec_stable]"
    using f by blast
  have 4: "count_list (generateRecommendations adh vit ex riskScore) rec_stable \<le> 1"
    by (simp add: g c)
  from 1 2 3 4 show ?thesis by (intro conjI)
qed

text \<open>
  The witness: a patient with good adherence, no flag, no pending exam and a low risk
  gets the default message alone; a patient with medium adherence and a moderate risk
  gets two recommendations, none of them the default one.
\<close>

theorem default_recommendation_witness:
  "generateRecommendations
     \<lparr> days = 30, totalReminders = 100, taken = 95, late = 0, missed = 5,
       adherenceRate = 95, adherenceStatus = Good \<rparr>
     \<lparr> lastMeasurements =
         \<lparr> lm_systolic = Some 120, lm_diastolic = Some 80, lm_heartRate = None,
           lm_bloodGlucose = Some 100, lm_temperature = None, lm_oxygenSaturation = None \<rparr>,
       flags = [], flagDetails = [] \<rparr>
     \<lparr> recentExams = 1, pendingExams = 0, overdueExams = 0, completedExams = 1 \<rparr>
     \<lparr> risk_value = 0, level = LevelLow, reasons = [] \<rparr> = [rec_stable] \<and>
   rec_stable \<notin> set (generateRecommendations
     \<lparr> days = 30, totalReminders = 100, taken = 80, late = 0, missed = 20,
       adherenceRate = 80, adherenceStatus = Medium \<rparr>
     \<lparr> lastMeasurements =
         \<lparr> lm_systolic = Some 120, lm_diastolic = Some 80, lm_heartRate = None,
           lm_bloodGlucose = Some 100, lm_temperature = None, lm_oxygenSaturation = None \<rparr>,
       flags = [], flagDetails = [] \<rparr>
     \<lparr> recentExams = 1, pendingExams = 0, overdueExams = 0, completedExams = 1 \<rparr>
     \<lparr> risk_value = 30, level = LevelModerate, reasons = [] \<rparr>)"
proof -
  let ?vit = "\<lparr> lastMeasurements =
         \<lparr> lm_systolic = Some 120, lm_diastolic = Some 80, lm_heartRate = None,
           lm_bloodGlucose = Some 100, lm_temperature = None, lm_oxygenSaturation = None \<rparr>,
       flags = [], flagDetails = [] \<rparr>"
  let ?ex = "\<lparr> recentExams = 1, pendingExams = 0, overdueExams = 0, completedExams = 1 \<rparr>"
  let ?good = "\<lparr> days = 30, totalReminders = 100, taken = 95, late = 0, missed = 5,
       adherenceRate = 95, adherenceStatus = Good \<rparr>"
  let ?medium = "\<lparr> days = 30, totalReminders = 100, taken = 80, late = 0, missed = 20,
       adherenceRate = 80, adherenceStatus = Medium \<rparr>"
  have a: "\<not> anyRuleFires ?good ?vit ?ex \<lparr> risk_value = 0, level = LevelLow, reasons = [] \<rparr>"
    by (simp add: anyRuleFires_def)
  have b: "anyRuleFires ?medium ?vit ?ex
             \<lparr> risk_value = 30, level = LevelModerate, reasons = [] \<rparr>"
    by (simp add: anyRuleFires_def)
  from default_recommendation [of ?good ?vit ?ex
         "\<lparr> risk_value = 0, level = LevelLow, reasons = [] \<rparr>"] a
  have 1: "generateRecommendations ?good ?vit ?ex
             \<lparr> risk_value = 0, level = LevelLow, reasons = [] \<rparr> = [rec_stable]"
    by blast
  from default_recommendation [of ?medium ?vit ?ex
         "\<lparr> risk_value = 30, level = LevelModerate, reasons = [] \<rparr>"] b
  have 2: "rec_stable \<notin> set (generateRecommendations ?medium ?vit ?ex
             \<lparr> risk_value = 30, level = LevelModerate, reasons = [] \<rparr>)"
    by blast
  from 1 2 show ?thesis by (intro conjI)
qed

subsection \<open>Construction of the engine\<close>

lemma reads_of_typed_config:
  "getPath (obj_of_config c) [''adherence'', ''goodThreshold''] = Some (Num (goodThreshold (adherence c)))"
  "getPath (obj_of_config c) [''adherence'', ''mediumThreshold''] = Some (Num (mediumThreshold (adherence c)))"
  "getPath (obj_of_config c) [''adherence'', ''badWeight''] = Some (Num (badWeight (adherence c)))"
  "getPath (obj_of_config c) [''adherence'', ''mediumWeight''] = Some (Num (mediumWeight (adherence c)))"
  "getPath (obj_of_config c) [''vitals'', ''pressure'', ''systolicHigh''] = Some (Num (systolicHigh (pressure (vitals c))))"
  "getPath (obj_of_config c) [''vitals'', ''pressure'', ''systolicLow''] = Some (Num (systolicLow (pressure (vitals c))))"
  "getPath (obj_of_config c) [''vitals'', ''pressure'', ''diastolicHigh''] = Some (Num (diastolicHigh (pressure (vitals c))))"
  "getPath (obj_of_config c) [''vitals'', ''pressure'', ''diastolicLow''] = Some (Num (diastolicLow (pressure (vitals c))))"
  "getPath (obj_of_config c) [''vitals'', ''pressure'', ''weight''] = Some (Num (pressure_weight (pressure (vitals c))))"
  "getPath (obj_of_config c) [''vitals'', ''glucose'', ''high''] = Some (Num (glucose_high (glucose (vitals c))))"
  "getPath (obj_of_config c) [''vitals'', ''glucose'', ''low''] = Some (Num (glucose_low (glucose (vitals c))))"
  "getPath (obj_of_config c) [''vitals'', ''glucose'', ''weight''] = Some (Num (glucose_weight (glucose (vitals c))))"
  "getPath (obj_of_config c) [''vitals'', ''heartRate'', ''high''] = Some (Num (heartRate_high (heartRate (vitals c))))"
  "getPath (obj_of_config c) [''vitals'', ''heartRate'', ''low''] = Some (Num (heartRate_low (heartRate (vitals c))))"
  "getPath (obj_of_config c) [''vitals'', ''heartRate'', ''weight''] = Some (Num (heartRate_weight (heartRate (vitals c))))"
  "getPath (obj_of_config c) [''vitals'', ''temperature'', ''high''] = Some (Num (temperature_high (temperature (vitals c))))"
  "getPath (obj_of_config c) [''vitals'', ''temperature'', ''low''] = Some (Num (temperature_low (temperature (vitals c))))"
  "getPath (obj_of_config c) [''vitals'', ''temperature'', ''weight''] = Some (Num (temperature_weight (temperature (vitals c))))"
  "getPath (obj_of_config c) [''vitals'', ''oxygen'', ''low''] = Some (Num (oxygen_low (oxygen (vitals c))))"
  "getPath (obj_of_config c) [''vitals'', ''oxygen'', ''weight''] = Some (Num (oxygen_weight (oxygen (vitals c))))"
  "getPath (obj_of_config c) [''exams'', ''overdueDays''] = Some (Num (overdueDays (exams c)))"
  "getPath (obj_of_config c) [''exams'', ''overdueWeight''] = Some (Num (overdueWeight (exams c)))"
  "getPath (obj_of_config c) [''exams'', ''pendingWeight''] = Some (Num (pendingWeight (exams c)))"
  "getPath (obj_of_config c) [''riskLevels'', ''lowMax''] = Some (Num (lowMax (riskLevels c)))"
  "getPath (obj_of_config c) [''riskLevels'', ''moderateMax''] = Some (Num (moderateMax (riskLevels c)))"
  by (simp_all add: obj_of_config_def obj_of_adherence_def obj_of_vitals_def
        obj_of_pressure_def obj_of_glucose_def obj_of_heartRate_def obj_of_temperature_def
        obj_of_oxygen_def obj_of_exams_def obj_of_riskLevels_def)

lemma spread2_whole:
  "spread2 (obj_of_config d) (obj_of_config c) = obj_of_config c"
  by (simp add: spread2_def copyProps_def obj_of_config_def)

lemma spread2_partial:
  "spread2 (obj_of_config d) (obj_of_partial p) = obj_of_config (withSections d p)"
  by (cases "partial_adherence p"; cases "partial_vitals p"; cases "partial_exams p";
      cases "partial_riskLevels p")
     (simp_all add: spread2_def copyProps_def obj_of_config_def obj_of_partial_def
        withSections_def)

text \<open>
  Claim C5, as stated, has the constructor raise an error for an invalid configuration.
  The constructor validates nothing. Given a configuration whose good threshold (50) is
  below its medium threshold (75), and given one whose \<open>lowMax\<close> (59) is above its
  \<open>moderateMax\<close> (29), it returns an instance that holds that configuration.
\<close>

theorem invalid_configuration_counterexample:
  "invalidConfig (DEFAULT_RISK_CONFIG\<lparr> adherence :=
       \<lparr> goodThreshold = 50, mediumThreshold = 75, badWeight = 25, mediumWeight = 10 \<rparr> \<rparr>) \<and>
   AIService_constructor (Some (obj_of_config (DEFAULT_RISK_CONFIG\<lparr> adherence :=
       \<lparr> goodThreshold = 50, mediumThreshold = 75, badWeight = 25, mediumWeight = 10 \<rparr> \<rparr>))) =
     Inr \<lparr> config = obj_of_config (DEFAULT_RISK_CONFIG\<lparr> adherence :=
       \<lparr> goodThreshold = 50, mediumThreshold = 75, badWeight = 25, mediumWeight = 10 \<rparr> \<rparr>) \<rparr> \<and>
   invalidConfig (DEFAULT_RISK_CONFIG\<lparr> riskLevels := \<lparr> lowMax = 59, moderateMax = 29 \<rparr> \<rparr>) \<and>
   AIService_constructor (Some (obj_of_config
       (DEFAULT_RISK_CONFIG\<lparr> riskLevels := \<lparr> lowMax = 59, moderateMax = 29 \<rparr> \<rparr>))) =
     Inr \<lparr> config = obj_of_config
       (DEFAULT_RISK_CONFIG\<lparr> riskLevels := \<lparr> lowMax = 59, moderateMax = 29 \<rparr> \<rparr>) \<rparr>"
  by code_simp

text \<open>
  Claim C5, amended. Engine construction validates nothing and never raises: for every
  argument the constructor returns an instance, and for every configuration, valid or
  invalid, passed as a whole, the instance holds exactly that configuration.
\<close>

theorem constructor_accepts_every_configuration:
  "AIService_constructor arg \<noteq> Inl e \<and>
   AIService_constructor (Some (obj_of_config c)) = Inr \<lparr> config = obj_of_config c \<rparr>"
  by (simp add: AIService_constructor_def spread2_whole)

text \<open>
  The witness: the default configuration with the good threshold raised to 95, passed
  as a whole, is the configuration of the instance.
\<close>

theorem constructor_accepts_every_configuration_witness:
  "configPath (AIService_constructor (Some (obj_of_config (DEFAULT_RISK_CONFIG\<lparr> adherence :=
       \<lparr> goodThreshold = 95, mediumThreshold = 75, badWeight = 25, mediumWeight = 10 \<rparr> \<rparr>))))
     [''adherence'', ''goodThreshold''] = Some (Num 95)"
proof -
  let ?c = "DEFAULT_RISK_CONFIG\<lparr> adherence :=
       \<lparr> goodThreshold = 95, mediumThreshold = 75, badWeight = 25, mediumWeight = 10 \<rparr> \<rparr>"
  have "getPath (obj_of_config ?c) [''adherence'', ''goodThreshold''] = Some (Num 95)"
    by code_simp
  with constructor_accepts_every_configuration [of "Some (obj_of_config ?c)" "Error []" ?c]
  show ?thesis by (simp add: configPath_def)
qed

text \<open>
  Claim C6, as stated, lets a partial configuration name a single leaf field and keeps
  the defaults of its siblings. The spread in the constructor is shallow. Given the
  object \<open>{ adherence: { goodThreshold: 95 } }\<close>, the instance has the good threshold 95,
  and \<open>adherence.badWeight\<close> is undefined, where the default is 25: the configuration is
  not the default configuration with the one field replaced.
\<close>

theorem single_leaf_override_counterexample:
  "configPath (AIService_constructor (Some [(''adherence'', Obj [(''goodThreshold'', Num 95)])]))
     [''adherence'', ''goodThreshold''] = Some (Num 95) \<and>
   configPath (AIService_constructor (Some [(''adherence'', Obj [(''goodThreshold'', Num 95)])]))
     [''adherence'', ''badWeight''] = None \<and>
   configPath (AIService_constructor None) [''adherence'', ''badWeight''] = Some (Num 25) \<and>
   AIService_constructor (Some [(''adherence'', Obj [(''goodThreshold'', Num 95)])]) \<noteq>
     Inr \<lparr> config = obj_of_config (DEFAULT_RISK_CONFIG\<lparr> adherence :=
       \<lparr> goodThreshold = 95, mediumThreshold = 75, badWeight = 25, mediumWeight = 10 \<rparr> \<rparr>) \<rparr>"
  by code_simp

text \<open>
  Claim C6, amended. The configuration is overridable as a whole or per top-level
  section (adherence, vitals, exams, riskLevels), which is what the type of the
  constructor's argument allows: a section that the argument leaves out keeps its
  default, a section that it gives replaces the default section as a whole, with the
  fields as given and no default filled in. Without an argument the configuration is
  the default one.
\<close>

theorem constructor_overrides_sections:
  "AIService_constructor (Some (obj_of_partial p)) =
     Inr \<lparr> config = obj_of_config (withSections DEFAULT_RISK_CONFIG p) \<rparr> \<and>
   AIService_constructor None = Inr \<lparr> config = obj_of_config DEFAULT_RISK_CONFIG \<rparr>"
proof -
  have "spread2 (obj_of_config DEFAULT_RISK_CONFIG) [] = obj_of_config DEFAULT_RISK_CONFIG"
    by (simp add: spread2_def copyProps_def obj_of_config_def)
  then show ?thesis
    by (simp add: AIService_constructor_def spread2_partial)
qed

text \<open>
  The witness is the override of the module's README: the adherence section is the
  default one with \<open>goodThreshold: 95\<close>, written out in full. The instance has the good
  threshold 95, the bad weight 25 of the section given, and the default \<open>lowMax\<close> of 29.
\<close>

theorem constructor_overrides_sections_witness:
  "configPath (AIService_constructor (Some (obj_of_partial
      \<lparr> partial_adherence = Some \<lparr> goodThreshold = 95, mediumThreshold = 75, badWeight = 25,
                                  mediumWeight = 10 \<rparr>,
        partial_vitals = None, partial_exams = None, partial_riskLevels = None \<rparr>)))
     [''adherence'', ''goodThreshold''] = Some (Num 95) \<and>
   configPath (AIService_constructor (Some (obj_of_partial
      \<lparr> partial_adherence = Some \<lparr> goodThreshold = 95, mediumThreshold = 75, badWeight = 25,
                                  mediumWeight = 10 \<rparr>,
        partial_vitals = None, partial_exams = None, partial_riskLevels = None \<rparr>)))
     [''adherence'', ''badWeight''] = Some (Num 25) \<and>
   configPath (AIService_constructor (Some (obj_of_partial
      \<lparr> partial_adherence = Some \<lparr> goodThreshold = 95, mediumThreshold = 75, badWeight = 25,
                                  mediumWeight = 10 \<rparr>,
        partial_vitals = None, partial_exams = None, partial_riskLevels = None \<rparr>)))
     [''riskLevels'', ''lowMax''] = Some (Num 29)"
proof -
  let ?p = "\<lparr> partial_adherence = Some \<lparr> goodThreshold = 95, mediumThreshold = 75,
                 badWeight = 25, mediumWeight = 10 \<rparr>,
        partial_vitals = None, partial_exams = None, partial_riskLevels = None \<rparr>"
  have a: "getPath (obj_of_config (withSections DEFAULT_RISK_CONFIG ?p))
             [''adherence'', ''goodThreshold''] = Some (Num 95)"
    and b: "getPath (obj_of_config (withSections DEFAULT_RISK_CONFIG ?p))
             [''adherence'', ''badWeight''] = Some (Num 25)"
    and c: "getPath (obj_of_config (withSections DEFAULT_RISK_CONFIG ?p))
             [''riskLevels'', ''lowMax''] = Some (Num 29)"
    by code_simp+
  from constructor_overrides_sections [of ?p]
  have "AIService_constructor (Some (obj_of_partial ?p)) =
          Inr \<lparr> config = obj_of_config (withSections DEFAULT_RISK_CONFIG ?p) \<rparr>"
    by (rule conjunct1)
  with a b c show ?thesis by (simp add: configPath_def)
qed

end
